theory Spec2Isabelle
  imports Main "HOL-Library.AList"
begin

section \<open>Python values, exceptions and effects\<close>

text \<open>
  The values that travel through \<^verbatim>\<open>hyperwallet/api.py\<close>: \<^verbatim>\<open>None\<close>, integers, strings,
  lists and dictionaries (association lists, first binding wins). Tokens, payloads and
  decoded responses are values of this type.
\<close>

datatype pyval =
    PNone
  | PInt int
  | PStr string
  | PList "pyval list"
  | PDict "(string \<times> pyval) list"

text \<open>Python truthiness, as \<^verbatim>\<open>not x\<close> and \<^verbatim>\<open>x or y\<close> read it.\<close>

fun truthy :: "pyval \<Rightarrow> bool" where
  "truthy PNone = False"
| "truthy (PInt n) = (n \<noteq> 0)"
| "truthy (PStr s) = (s \<noteq> [])"
| "truthy (PList xs) = (xs \<noteq> [])"
| "truthy (PDict d) = (d \<noteq> [])"

text \<open>\<^verbatim>\<open>k in d\<close> for a dictionary.\<close>

definition has_key :: "(string \<times> 'v) list \<Rightarrow> string \<Rightarrow> bool" where
  "has_key d k = (k \<in> set (map fst d))"

text \<open>
  Every exception the module can end with: the library's own \<^verbatim>\<open>HyperwalletException\<close>
  with its message, the interpreter's \<^verbatim>\<open>AttributeError\<close>, \<^verbatim>\<open>TypeError\<close> and
  \<^verbatim>\<open>NameError\<close> (with the unbound name), and whatever the transport raises.
\<close>

datatype error =
    HyperwalletException string
  | AttributeError
  | TypeError
  | NameError string
  | TransportError string

text \<open>
  A computation of the module makes calls (recorded in order) and then either raises or
  returns. \<open>'c\<close> is the kind of call that is recorded.
\<close>

type_synonym ('c, 'a) outcome = "'c list \<times> (error + 'a)"

definition raise :: "error \<Rightarrow> ('c, 'a) outcome" where
  "raise e = ([], Inl e)"

definition return :: "'a \<Rightarrow> ('c, 'a) outcome" where
  "return x = ([], Inr x)"

text \<open>Sequencing: an exception of the first part skips the second.\<close>

definition and_then :: "('c, 'a) outcome \<Rightarrow> ('a \<Rightarrow> ('c, 'b) outcome) \<Rightarrow> ('c, 'b) outcome" where
  "and_then m f =
     (case m of
        (log, Inl e) \<Rightarrow> (log, Inl e)
      | (log, Inr x) \<Rightarrow> (case f x of (log', r) \<Rightarrow> (log @ log', r)))"

definition lift :: "error + 'a \<Rightarrow> ('c, 'a) outcome" where
  "lift r = ([], r)"

section \<open>The transport collaborator\<close>

text \<open>
  \<^verbatim>\<open>utils.ApiClient\<close> is outside the module: it is a parameter of the model. A request
  records the method, the path and the arguments as the module passed them (\<open>None\<close> for
  an argument the call leaves out); the transport answers with the decoded body or
  raises.
\<close>

datatype request =
    DoGet string "pyval option"
  | DoPost string pyval "pyval option"
  | DoPut string pyval

type_synonym transport = "request \<Rightarrow> error + pyval"

record api =
  username :: pyval
  password :: pyval
  programToken :: pyval
  server :: pyval
  apiClient :: transport

text \<open>\<^verbatim>\<open>Api.__init__\<close>; \<open>client\<close> stands for the \<^verbatim>\<open>ApiClient\<close> constructor.\<close>

definition init :: "(pyval \<Rightarrow> pyval \<Rightarrow> pyval \<Rightarrow> transport) \<Rightarrow> pyval \<Rightarrow> pyval \<Rightarrow> pyval \<Rightarrow> pyval \<Rightarrow> error + api" where
  "init client usr pwd tok srv =
     (if \<not> truthy usr then Inl (HyperwalletException ''username is required'')
      else if \<not> truthy pwd then Inl (HyperwalletException ''password is required'')
      else if \<not> truthy tok then Inl (HyperwalletException ''programToken is required'')
      else Inr \<lparr>username = usr, password = pwd, programToken = tok, server = srv,
                apiClient = client usr pwd srv\<rparr>)"

definition doGet :: "api \<Rightarrow> string \<Rightarrow> pyval option \<Rightarrow> (request, pyval) outcome" where
  "doGet self path params = ([DoGet path params], apiClient self (DoGet path params))"

definition doPost :: "api \<Rightarrow> string \<Rightarrow> pyval \<Rightarrow> pyval option \<Rightarrow> (request, pyval) outcome" where
  "doPost self path data headers = ([DoPost path data headers], apiClient self (DoPost path data headers))"

definition doPut :: "api \<Rightarrow> string \<Rightarrow> pyval \<Rightarrow> (request, pyval) outcome" where
  "doPut self path data = ([DoPut path data], apiClient self (DoPut path data))"

section \<open>Paths\<close>

text \<open>
  \<^verbatim>\<open>os.path.join\<close> (posixpath): a segment that starts with a slash replaces the path so
  far; otherwise it is appended after a slash, unless the path is empty or already ends
  with one. A segment that is not a string has no \<^verbatim>\<open>startswith\<close>: AttributeError
  (the module is Python 2, by its implicit relative imports; Python 3 raises TypeError
  at the same place). The first argument is a string literal at every call of the module.
\<close>

definition join_step :: "string \<Rightarrow> string \<Rightarrow> string" where
  "join_step path b =
     (if take 1 b = ''/'' then b
      else if path = [] then path @ b
      else if last path = CHR ''/'' then path @ b
      else path @ ''/'' @ b)"

fun os_path_join :: "string \<Rightarrow> pyval list \<Rightarrow> error + string" where
  "os_path_join path [] = Inr path"
| "os_path_join path (PStr b # p) = os_path_join (join_step path b) p"
| "os_path_join path (_ # p) = Inl AttributeError"

section \<open>Resources\<close>

datatype resource_kind = User | BankAccount | PrepaidCard | PaperCheck | Payment | Webhook

text \<open>
  Modelled from the spec: the resource classes (\<^verbatim>\<open>User\<close>, \<^verbatim>\<open>BankAccount\<close>, ...) are defined
  in the package, outside \<^verbatim>\<open>api.py\<close>. A resource is "constructed from a mapping", with
  "no validation beyond storing the mapping".
\<close>

datatype resource = Resource resource_kind pyval

fun class_name :: "resource_kind \<Rightarrow> string" where
  "class_name User = ''User''"
| "class_name BankAccount = ''BankAccount''"
| "class_name PrepaidCard = ''PrepaidCard''"
| "class_name PaperCheck = ''PaperCheck''"
| "class_name Payment = ''Payment''"
| "class_name Webhook = ''Webhook''"

text \<open>The names \<^verbatim>\<open>from hyperwallet import (...)\<close> binds in the module (lines 9 to 15).\<close>

definition imported :: "resource_kind list" where
  "imported = [User, BankAccount, PrepaidCard, PaperCheck, Webhook]"

text \<open>\<^verbatim>\<open>Kind(x)\<close>: the name is looked up when the call runs.\<close>

definition construct :: "resource_kind \<Rightarrow> pyval \<Rightarrow> (request, resource) outcome" where
  "construct k x = (if k \<in> set imported then return (Resource k x) else raise (NameError (class_name k)))"

fun construct_all :: "resource_kind \<Rightarrow> pyval list \<Rightarrow> (request, resource list) outcome" where
  "construct_all k [] = return []"
| "construct_all k (x # xs) =
     and_then (construct k x) (\<lambda>r. and_then (construct_all k xs) (\<lambda>rs. return (r # rs)))"

text \<open>Iterating a value: a list gives its items, a dictionary its keys, a string its characters.\<close>

fun py_iter :: "pyval \<Rightarrow> error + pyval list" where
  "py_iter (PList xs) = Inr xs"
| "py_iter (PDict d) = Inr (map (\<lambda>kv. PStr (fst kv)) d)"
| "py_iter (PStr s) = Inr (map (\<lambda>c. PStr [c]) s)"
| "py_iter PNone = Inl TypeError"
| "py_iter (PInt n) = Inl TypeError"

text \<open>\<^verbatim>\<open>[Kind(x) for x in response.get('data', [])]\<close>\<close>

definition wrap_data :: "resource_kind \<Rightarrow> pyval \<Rightarrow> (request, resource list) outcome" where
  "wrap_data k response =
     (case response of
        PDict d \<Rightarrow>
          and_then (lift (py_iter (case map_of d ''data'' of None \<Rightarrow> PList [] | Some v \<Rightarrow> v)))
            (construct_all k)
      | _ \<Rightarrow> raise AttributeError)"

section \<open>Program token\<close>

text \<open>\<^verbatim>\<open>Api._addProgramToken\<close>; the dictionary it mutates is the one it returns.\<close>

definition addProgramToken :: "api \<Rightarrow> pyval \<Rightarrow> error + pyval" where
  "addProgramToken self data =
     (case data of
        PDict d \<Rightarrow>
          if has_key d ''programToken'' then Inr data
          else Inr (PDict (AList.update ''programToken'' (programToken self) d))
      | _ \<Rightarrow> Inl (HyperwalletException ''data must be a dictionary object''))"

section \<open>The pagination accumulator\<close>

text \<open>
  The slicing parameters of the \<^verbatim>\<open>get*\<close> operations: a dictionary whose values are
  integers or \<^verbatim>\<open>None\<close>. \<open>dict_get\<close> is \<^verbatim>\<open>params.get(k)\<close>: an absent key reads as
  \<^verbatim>\<open>None\<close>.
\<close>

type_synonym slice_params = "(string \<times> int option) list"

definition dict_get :: "slice_params \<Rightarrow> string \<Rightarrow> int option" where
  "dict_get d k = (case map_of d k of None \<Rightarrow> None | Some v \<Rightarrow> v)"

text \<open>\<^verbatim>\<open>v or 0\<close>\<close>

definition or_zero :: "int option \<Rightarrow> int" where
  "or_zero v = (case v of None \<Rightarrow> 0 | Some n \<Rightarrow> if n = 0 then 0 else n)"

definition chunksize :: int where
  "chunksize = 100"

text \<open>\<^verbatim>\<open>{'offset': offset, 'limit': chunksize}\<close>\<close>

definition page :: "int \<Rightarrow> int \<Rightarrow> pyval" where
  "page offset limit = PDict [(''offset'', PInt offset), (''limit'', PInt limit)]"

text \<open>\<^verbatim>\<open>maximum and len(results) >= maximum\<close>\<close>

definition reached :: "int option \<Rightarrow> 'a list \<Rightarrow> bool" where
  "reached maximum results =
     (case maximum of None \<Rightarrow> False | Some m \<Rightarrow> m \<noteq> 0 \<and> m \<le> int (length results))"

text \<open>
  The \<^verbatim>\<open>while True\<close> loop of \<^verbatim>\<open>_getCollection\<close>. It ends at a short page, at the
  maximum, or with the exception of a fetch; a fetch function that keeps returning full
  pages keeps it running, which is the value \<open>None\<close>.
\<close>

partial_function (option) fetch_loop ::
  "(pyval \<Rightarrow> ('c, 'a list) outcome) \<Rightarrow> int option \<Rightarrow> int \<Rightarrow> 'a list \<Rightarrow> 'c list \<Rightarrow> ('c, 'a list) outcome option"
where
  "fetch_loop func maximum offset results log =
     (case func (page offset chunksize) of
        (l, Inl e) \<Rightarrow> Some (log @ l, Inl e)
      | (l, Inr response) \<Rightarrow>
          (let results' = results @ response; offset' = offset + chunksize in
           if int (length response) < chunksize then Some (log @ l, Inr results')
           else if reached maximum results' then Some (log @ l, Inr results')
           else fetch_loop func maximum offset' results' (log @ l)))"

text \<open>\<^verbatim>\<open>results[0:maximum]\<close>\<close>

definition slice_to :: "'a list \<Rightarrow> int option \<Rightarrow> 'a list" where
  "slice_to xs stop =
     (case stop of
        None \<Rightarrow> xs
      | Some m \<Rightarrow> if 0 \<le> m then take (nat m) xs else take (length xs - nat (- m)) xs)"

text \<open>\<^verbatim>\<open>Api._getCollection\<close>; \<open>params = None\<close> is the declared default.\<close>

definition getCollection ::
  "(pyval \<Rightarrow> ('c, 'a list) outcome) \<Rightarrow> slice_params option \<Rightarrow> ('c, 'a list) outcome option"
where
  "getCollection func params =
     (case params of
        None \<Rightarrow> Some (raise AttributeError)
      | Some p \<Rightarrow>
          (let offset = or_zero (dict_get p ''offset'');
               maximum = dict_get p ''maximum''
           in if (case maximum of None \<Rightarrow> False | Some m \<Rightarrow> m < 1) then Some (return [])
              else
                (case fetch_loop func maximum offset [] [] of
                   None \<Rightarrow> None
                 | Some (log, Inl e) \<Rightarrow> Some (log, Inl e)
                 | Some (log, Inr results) \<Rightarrow> Some (log, Inr (slice_to results maximum)))))"

section \<open>The endpoint operations\<close>

text \<open>
  One definition per method of \<^verbatim>\<open>Api\<close>, in the order of the source. Arguments left out
  by the caller are \<open>PNone\<close>, their declared default. The argument \<^verbatim>\<open>programToken\<close> of
  the account and program operations is written \<open>progToken\<close>, the field of the client
  keeping the name.
\<close>

definition listUsers :: "api \<Rightarrow> pyval \<Rightarrow> (request, resource list) outcome" where
  "listUsers self params = and_then (doGet self ''users'' (Some params)) (wrap_data User)"

definition createUser :: "api \<Rightarrow> pyval \<Rightarrow> (request, resource) outcome" where
  "createUser self data =
     (if \<not> truthy data then raise (HyperwalletException ''data is required'')
      else and_then (lift (addProgramToken self data)) (\<lambda>data.
           and_then (doPost self ''users'' data None) (construct User)))"

definition retrieveUser :: "api \<Rightarrow> pyval \<Rightarrow> (request, resource) outcome" where
  "retrieveUser self userToken =
     (if \<not> truthy userToken then raise (HyperwalletException ''userToken is required'')
      else and_then (lift (os_path_join ''users'' [userToken])) (\<lambda>path.
           and_then (doGet self path None) (construct User)))"

definition updateUser :: "api \<Rightarrow> pyval \<Rightarrow> pyval \<Rightarrow> (request, resource) outcome" where
  "updateUser self userToken data =
     (if \<not> truthy userToken then raise (HyperwalletException ''userToken is required'')
      else if \<not> truthy data then raise (HyperwalletException ''data is required'')
      else and_then (lift (os_path_join ''users'' [userToken])) (\<lambda>path.
           and_then (doPut self path data) (construct User)))"

definition listUserBalances :: "api \<Rightarrow> pyval \<Rightarrow> pyval \<Rightarrow> (request, pyval) outcome" where
  "listUserBalances self userToken params =
     (if \<not> truthy userToken then raise (HyperwalletException ''userToken is required'')
      else and_then (lift (os_path_join ''users'' [userToken, PStr ''balances''])) (\<lambda>path.
           doGet self path (Some params)))"

definition listUserReceipts :: "api \<Rightarrow> pyval \<Rightarrow> pyval \<Rightarrow> (request, pyval) outcome" where
  "listUserReceipts self userToken params =
     (if \<not> truthy userToken then raise (HyperwalletException ''userToken is required'')
      else and_then (lift (os_path_join ''users'' [userToken, PStr ''receipts''])) (\<lambda>path.
           doGet self path (Some params)))"

definition listBankAccounts :: "api \<Rightarrow> pyval \<Rightarrow> pyval \<Rightarrow> (request, resource list) outcome" where
  "listBankAccounts self userToken params =
     (if \<not> truthy userToken then raise (HyperwalletException ''userToken is required'')
      else and_then (lift (os_path_join ''users'' [userToken, PStr ''bank-accounts''])) (\<lambda>path.
           and_then (doGet self path (Some params)) (wrap_data BankAccount)))"

definition createBankAccount :: "api \<Rightarrow> pyval \<Rightarrow> pyval \<Rightarrow> (request, resource) outcome" where
  "createBankAccount self userToken data =
     (if \<not> truthy userToken then raise (HyperwalletException ''userToken is required'')
      else if \<not> truthy data then raise (HyperwalletException ''data is required'')
      else and_then (lift (os_path_join ''users'' [userToken, PStr ''bank-accounts''])) (\<lambda>path.
           and_then (doPost self path data None) (construct BankAccount)))"

definition retrieveBankAccount :: "api \<Rightarrow> pyval \<Rightarrow> pyval \<Rightarrow> (request, resource) outcome" where
  "retrieveBankAccount self userToken bankAccountToken =
     (if \<not> truthy userToken then raise (HyperwalletException ''userToken is required'')
      else if \<not> truthy bankAccountToken then raise (HyperwalletException ''bankAccountToken is required'')
      else and_then (lift (os_path_join ''users'' [userToken, PStr ''bank-accounts'', bankAccountToken])) (\<lambda>path.
           and_then (doGet self path None) (construct BankAccount)))"

definition updateBankAccount :: "api \<Rightarrow> pyval \<Rightarrow> pyval \<Rightarrow> pyval \<Rightarrow> (request, resource) outcome" where
  "updateBankAccount self userToken bankAccountToken data =
     (if \<not> truthy userToken then raise (HyperwalletException ''userToken is required'')
      else if \<not> truthy bankAccountToken then raise (HyperwalletException ''bankAccountToken is required'')
      else if \<not> truthy data then raise (HyperwalletException ''data is required'')
      else and_then (lift (os_path_join ''users'' [userToken, PStr ''bank-accounts'', bankAccountToken])) (\<lambda>path.
           and_then (doPut self path data) (construct BankAccount)))"

definition createBankAccountStatusTransition :: "api \<Rightarrow> pyval \<Rightarrow> pyval \<Rightarrow> pyval \<Rightarrow> (request, pyval) outcome" where
  "createBankAccountStatusTransition self userToken bankAccountToken data =
     (if \<not> truthy userToken then raise (HyperwalletException ''userToken is required'')
      else if \<not> truthy bankAccountToken then raise (HyperwalletException ''bankAccountToken is required'')
      else if \<not> truthy data then raise (HyperwalletException ''data is required'')
      else and_then (lift (os_path_join ''users'' [userToken, PStr ''bank-accounts'', bankAccountToken, PStr ''status-transitions''])) (\<lambda>path.
           doPost self path data None))"

definition retrieveBankAccountStatusTransition :: "api \<Rightarrow> pyval \<Rightarrow> pyval \<Rightarrow> pyval \<Rightarrow> (request, pyval) outcome" where
  "retrieveBankAccountStatusTransition self userToken bankAccountToken statusTransitionToken =
     (if \<not> truthy userToken then raise (HyperwalletException ''userToken is required'')
      else if \<not> truthy bankAccountToken then raise (HyperwalletException ''bankAccountToken is required'')
      else if \<not> truthy statusTransitionToken then raise (HyperwalletException ''statusTransitionToken is required'')
      else and_then (lift (os_path_join ''users'' [userToken, PStr ''bank-accounts'', bankAccountToken, PStr ''status-transitions'', statusTransitionToken])) (\<lambda>path.
           doGet self path None))"

definition listPrepaidCards :: "api \<Rightarrow> pyval \<Rightarrow> pyval \<Rightarrow> (request, resource list) outcome" where
  "listPrepaidCards self userToken params =
     (if \<not> truthy userToken then raise (HyperwalletException ''userToken is required'')
      else and_then (lift (os_path_join ''users'' [userToken, PStr ''prepaid-cards''])) (\<lambda>path.
           and_then (doGet self path (Some params)) (wrap_data PrepaidCard)))"

definition createPrepaidCard :: "api \<Rightarrow> pyval \<Rightarrow> pyval \<Rightarrow> (request, resource) outcome" where
  "createPrepaidCard self userToken data =
     (if \<not> truthy userToken then raise (HyperwalletException ''userToken is required'')
      else if \<not> truthy data then raise (HyperwalletException ''data is required'')
      else and_then (lift (os_path_join ''users'' [userToken, PStr ''prepaid-cards''])) (\<lambda>path.
           and_then (doPost self path data None) (construct PrepaidCard)))"

definition retrievePrepaidCard :: "api \<Rightarrow> pyval \<Rightarrow> pyval \<Rightarrow> (request, resource) outcome" where
  "retrievePrepaidCard self userToken prepaidCardToken =
     (if \<not> truthy userToken then raise (HyperwalletException ''userToken is required'')
      else if \<not> truthy prepaidCardToken then raise (HyperwalletException ''prepaidCardToken is required'')
      else and_then (lift (os_path_join ''users'' [userToken, PStr ''prepaid-cards'', prepaidCardToken])) (\<lambda>path.
           and_then (doGet self path None) (construct PrepaidCard)))"

definition listPrepaidCardStatusTransitions :: "api \<Rightarrow> pyval \<Rightarrow> pyval \<Rightarrow> (request, pyval) outcome" where
  "listPrepaidCardStatusTransitions self userToken prepaidCardToken =
     (if \<not> truthy userToken then raise (HyperwalletException ''userToken is required'')
      else if \<not> truthy prepaidCardToken then raise (HyperwalletException ''prepaidCardToken is required'')
      else and_then (lift (os_path_join ''users'' [userToken, PStr ''prepaid-cards'', prepaidCardToken, PStr ''status-transitions''])) (\<lambda>path.
           doGet self path None))"

definition createPrepaidCardStatusTransition :: "api \<Rightarrow> pyval \<Rightarrow> pyval \<Rightarrow> pyval \<Rightarrow> (request, pyval) outcome" where
  "createPrepaidCardStatusTransition self userToken prepaidCardToken data =
     (if \<not> truthy userToken then raise (HyperwalletException ''userToken is required'')
      else if \<not> truthy prepaidCardToken then raise (HyperwalletException ''prepaidCardToken is required'')
      else if \<not> truthy data then raise (HyperwalletException ''data is required'')
      else and_then (lift (os_path_join ''users'' [userToken, PStr ''prepaid-cards'', prepaidCardToken, PStr ''status-transitions''])) (\<lambda>path.
           doPost self path data None))"

definition retrievePrepaidCardStatusTransition :: "api \<Rightarrow> pyval \<Rightarrow> pyval \<Rightarrow> pyval \<Rightarrow> (request, pyval) outcome" where
  "retrievePrepaidCardStatusTransition self userToken prepaidCardToken statusTransitionToken =
     (if \<not> truthy userToken then raise (HyperwalletException ''userToken is required'')
      else if \<not> truthy prepaidCardToken then raise (HyperwalletException ''prepaidCardToken is required'')
      else if \<not> truthy statusTransitionToken then raise (HyperwalletException ''statusTransitionToken is required'')
      else and_then (lift (os_path_join ''users'' [userToken, PStr ''prepaid-cards'', prepaidCardToken, PStr ''status-transitions'', statusTransitionToken])) (\<lambda>path.
           doGet self path None))"

definition listPrepaidCardBalances :: "api \<Rightarrow> pyval \<Rightarrow> pyval \<Rightarrow> pyval \<Rightarrow> (request, pyval) outcome" where
  "listPrepaidCardBalances self userToken prepaidCardToken params =
     (if \<not> truthy userToken then raise (HyperwalletException ''userToken is required'')
      else if \<not> truthy prepaidCardToken then raise (HyperwalletException ''prepaidCardToken is required'')
      else and_then (lift (os_path_join ''users'' [userToken, PStr ''prepaid-cards'', prepaidCardToken, PStr ''balances''])) (\<lambda>path.
           doGet self path (Some params)))"

definition listPrepaidCardReceipts :: "api \<Rightarrow> pyval \<Rightarrow> pyval \<Rightarrow> pyval \<Rightarrow> (request, pyval) outcome" where
  "listPrepaidCardReceipts self userToken prepaidCardToken params =
     (if \<not> truthy userToken then raise (HyperwalletException ''userToken is required'')
      else if \<not> truthy prepaidCardToken then raise (HyperwalletException ''prepaidCardToken is required'')
      else and_then (lift (os_path_join ''users'' [userToken, PStr ''prepaid-cards'', prepaidCardToken, PStr ''receipts''])) (\<lambda>path.
           doGet self path (Some params)))"

definition listPaperChecks :: "api \<Rightarrow> pyval \<Rightarrow> pyval \<Rightarrow> (request, resource list) outcome" where
  "listPaperChecks self userToken params =
     (if \<not> truthy userToken then raise (HyperwalletException ''userToken is required'')
      else and_then (lift (os_path_join ''users'' [userToken, PStr ''paper-checks''])) (\<lambda>path.
           and_then (doGet self path (Some params)) (wrap_data PaperCheck)))"

definition createPaperCheck :: "api \<Rightarrow> pyval \<Rightarrow> pyval \<Rightarrow> (request, resource) outcome" where
  "createPaperCheck self userToken data =
     (if \<not> truthy userToken then raise (HyperwalletException ''userToken is required'')
      else if \<not> truthy data then raise (HyperwalletException ''data is required'')
      else and_then (lift (os_path_join ''users'' [userToken, PStr ''paper-checks''])) (\<lambda>path.
           and_then (doPost self path data None) (construct PaperCheck)))"

definition retrievePaperCheck :: "api \<Rightarrow> pyval \<Rightarrow> pyval \<Rightarrow> (request, resource) outcome" where
  "retrievePaperCheck self userToken paperCheckToken =
     (if \<not> truthy userToken then raise (HyperwalletException ''userToken is required'')
      else if \<not> truthy paperCheckToken then raise (HyperwalletException ''paperCheckToken is required'')
      else and_then (lift (os_path_join ''users'' [userToken, PStr ''paper-checks'', paperCheckToken])) (\<lambda>path.
           and_then (doGet self path None) (construct PaperCheck)))"

definition updatePaperCheck :: "api \<Rightarrow> pyval \<Rightarrow> pyval \<Rightarrow> pyval \<Rightarrow> (request, resource) outcome" where
  "updatePaperCheck self userToken paperCheckToken data =
     (if \<not> truthy userToken then raise (HyperwalletException ''userToken is required'')
      else if \<not> truthy paperCheckToken then raise (HyperwalletException ''paperCheckToken is required'')
      else if \<not> truthy data then raise (HyperwalletException ''data is required'')
      else and_then (lift (os_path_join ''users'' [userToken, PStr ''paper-checks'', paperCheckToken])) (\<lambda>path.
           and_then (doPut self path data) (construct PaperCheck)))"

definition createPaperCheckStatusTransition :: "api \<Rightarrow> pyval \<Rightarrow> pyval \<Rightarrow> pyval \<Rightarrow> (request, pyval) outcome" where
  "createPaperCheckStatusTransition self userToken paperCheckToken data =
     (if \<not> truthy userToken then raise (HyperwalletException ''userToken is required'')
      else if \<not> truthy paperCheckToken then raise (HyperwalletException ''paperCheckToken is required'')
      else if \<not> truthy data then raise (HyperwalletException ''data is required'')
      else and_then (lift (os_path_join ''users'' [userToken, PStr ''paper-checks'', paperCheckToken, PStr ''status-transitions''])) (\<lambda>path.
           doPost self path data None))"

definition retrievePaperCheckStatusTransition :: "api \<Rightarrow> pyval \<Rightarrow> pyval \<Rightarrow> pyval \<Rightarrow> (request, pyval) outcome" where
  "retrievePaperCheckStatusTransition self userToken paperCheckToken statusTransitionToken =
     (if \<not> truthy userToken then raise (HyperwalletException ''userToken is required'')
      else if \<not> truthy paperCheckToken then raise (HyperwalletException ''paperCheckToken is required'')
      else if \<not> truthy statusTransitionToken then raise (HyperwalletException ''statusTransitionToken is required'')
      else and_then (lift (os_path_join ''users'' [userToken, PStr ''paper-checks'', paperCheckToken, PStr ''status-transitions'', statusTransitionToken])) (\<lambda>path.
           doGet self path None))"

definition createPayment :: "api \<Rightarrow> pyval \<Rightarrow> (request, resource) outcome" where
  "createPayment self data =
     (if \<not> truthy data then raise (HyperwalletException ''data is required'')
      else and_then (lift (addProgramToken self data)) (\<lambda>data.
           and_then (doPost self ''payments'' data None) (construct Payment)))"

definition retrievePayment :: "api \<Rightarrow> pyval \<Rightarrow> (request, resource) outcome" where
  "retrievePayment self paymentToken =
     (if \<not> truthy paymentToken then raise (HyperwalletException ''paymentToken is required'')
      else and_then (lift (os_path_join ''payments'' [paymentToken])) (\<lambda>path.
           and_then (doGet self path None) (construct Payment)))"

definition retrieveAccount :: "api \<Rightarrow> pyval \<Rightarrow> pyval \<Rightarrow> (request, pyval) outcome" where
  "retrieveAccount self progToken accountToken =
     (if \<not> truthy progToken then raise (HyperwalletException ''programToken is required'')
      else if \<not> truthy accountToken then raise (HyperwalletException ''accountToken is required'')
      else and_then (lift (os_path_join ''programs'' [progToken, PStr ''accounts'', accountToken])) (\<lambda>path.
           doGet self path None))"

definition listAccountBalances :: "api \<Rightarrow> pyval \<Rightarrow> pyval \<Rightarrow> pyval \<Rightarrow> (request, pyval) outcome" where
  "listAccountBalances self progToken accountToken params =
     (if \<not> truthy progToken then raise (HyperwalletException ''programToken is required'')
      else if \<not> truthy accountToken then raise (HyperwalletException ''accountToken is required'')
      else and_then (lift (os_path_join ''programs'' [progToken, PStr ''accounts'', accountToken, PStr ''balances''])) (\<lambda>path.
           doGet self path (Some params)))"

definition listAccountReceipts :: "api \<Rightarrow> pyval \<Rightarrow> pyval \<Rightarrow> pyval \<Rightarrow> (request, pyval) outcome" where
  "listAccountReceipts self progToken accountToken params =
     (if \<not> truthy progToken then raise (HyperwalletException ''programToken is required'')
      else if \<not> truthy accountToken then raise (HyperwalletException ''accountToken is required'')
      else and_then (lift (os_path_join ''programs'' [progToken, PStr ''accounts'', accountToken, PStr ''receipts''])) (\<lambda>path.
           doGet self path (Some params)))"

definition retrieveProgram :: "api \<Rightarrow> pyval \<Rightarrow> (request, pyval) outcome" where
  "retrieveProgram self progToken =
     (if \<not> truthy progToken then raise (HyperwalletException ''programToken is required'')
      else and_then (lift (os_path_join ''programs'' [progToken])) (\<lambda>path.
           doGet self path None))"

definition createTransferMethod :: "api \<Rightarrow> pyval \<Rightarrow> pyval \<Rightarrow> pyval \<Rightarrow> (request, pyval) outcome" where
  "createTransferMethod self userToken cacheToken data =
     (if \<not> truthy userToken then raise (HyperwalletException ''userToken is required'')
      else if \<not> truthy cacheToken then raise (HyperwalletException ''cacheToken is required'')
      else let headers = PDict [(''Json-Cache-Token'', cacheToken)] in
           and_then (lift (os_path_join ''users'' [userToken, PStr ''transfer-methods''])) (\<lambda>path.
           doPost self path data (Some headers)))"

definition retrieveWebhook :: "api \<Rightarrow> pyval \<Rightarrow> (request, resource) outcome" where
  "retrieveWebhook self webhookToken =
     (if \<not> truthy webhookToken then raise (HyperwalletException ''webhookToken is required'')
      else and_then (lift (os_path_join ''webhook-notifications'' [webhookToken])) (\<lambda>path.
           and_then (doGet self path None) (construct Webhook)))"

definition listPayments :: "api \<Rightarrow> pyval \<Rightarrow> (request, resource list) outcome" where
  "listPayments self params = and_then (doGet self ''payments'' (Some params)) (wrap_data Payment)"

definition listWebhooks :: "api \<Rightarrow> pyval \<Rightarrow> (request, resource list) outcome" where
  "listWebhooks self params =
     and_then (doGet self ''webhook-notifications'' (Some params)) (wrap_data Webhook)"

text \<open>
  The two operations whose required arguments are keys of \<^verbatim>\<open>params\<close>, a dictionary
  (default \<^verbatim>\<open>{}\<close>). The test is \<^verbatim>\<open>'key' not in params\<close>.
\<close>

text \<open>The keys \<^verbatim>\<open>retrieveTransferMethodConfiguration\<close> tests, in the order it tests them.\<close>

definition required_keys :: "string list" where
  "required_keys = [''userToken'', ''country'', ''currency'', ''type'', ''profileType'']"

definition listTransferMethodConfigurations :: "api \<Rightarrow> (string \<times> pyval) list \<Rightarrow> (request, pyval) outcome" where
  "listTransferMethodConfigurations self params =
     (if \<not> has_key params ''userToken'' then raise (HyperwalletException ''userToken is required'')
      else doGet self ''transfer-method-configurations'' (Some (PDict params)))"

definition retrieveTransferMethodConfiguration :: "api \<Rightarrow> (string \<times> pyval) list \<Rightarrow> (request, pyval) outcome" where
  "retrieveTransferMethodConfiguration self params =
     (if \<not> has_key params ''userToken'' then raise (HyperwalletException ''userToken is required'')
      else if \<not> has_key params ''country'' then raise (HyperwalletException ''country is required'')
      else if \<not> has_key params ''currency'' then raise (HyperwalletException ''currency is required'')
      else if \<not> has_key params ''type'' then raise (HyperwalletException ''type is required'')
      else if \<not> has_key params ''profileType'' then raise (HyperwalletException ''profileType is required'')
      else doGet self ''transfer-method-configurations'' (Some (PDict params)))"

text \<open>
  The \<^verbatim>\<open>get*\<close> operations hand the bound \<^verbatim>\<open>list*\<close> method to the accumulator, which calls
  it with one positional argument, the page dictionary. For \<^verbatim>\<open>listUsers\<close>,
  \<^verbatim>\<open>listPayments\<close> and \<^verbatim>\<open>listWebhooks\<close> that argument is \<^verbatim>\<open>params\<close>; for
  \<^verbatim>\<open>listBankAccounts\<close>, \<^verbatim>\<open>listPrepaidCards\<close> and \<^verbatim>\<open>listPaperChecks\<close> the first
  positional parameter is \<^verbatim>\<open>userToken\<close>, and \<^verbatim>\<open>params\<close> keeps its default.
\<close>

definition getUsers :: "api \<Rightarrow> slice_params option \<Rightarrow> (request, resource list) outcome option" where
  "getUsers self params = getCollection (listUsers self) params"

definition getBankAccounts :: "api \<Rightarrow> slice_params option \<Rightarrow> (request, resource list) outcome option" where
  "getBankAccounts self params = getCollection (\<lambda>args. listBankAccounts self args PNone) params"

definition getPrepaidCards :: "api \<Rightarrow> slice_params option \<Rightarrow> (request, resource list) outcome option" where
  "getPrepaidCards self params = getCollection (\<lambda>args. listPrepaidCards self args PNone) params"

definition getPaperChecks :: "api \<Rightarrow> slice_params option \<Rightarrow> (request, resource list) outcome option" where
  "getPaperChecks self params = getCollection (\<lambda>args. listPaperChecks self args PNone) params"

definition getPayments :: "api \<Rightarrow> slice_params option \<Rightarrow> (request, resource list) outcome option" where
  "getPayments self params = getCollection (listPayments self) params"

definition getWebhooks :: "api \<Rightarrow> slice_params option \<Rightarrow> (request, resource list) outcome option" where
  "getWebhooks self params = getCollection (listWebhooks self) params"

section \<open>Calls of the operations that have required arguments\<close>

text \<open>
  To speak of "every operation with a required argument": one constructor per such
  operation, \<open>invoke\<close> to run it, and \<open>required\<close> for the arguments its docstring marks
  REQUIRED, by name, in the order the method tests them.
\<close>

datatype reply = One resource | Many "resource list" | Raw pyval

definition as_reply :: "('a \<Rightarrow> reply) \<Rightarrow> (request, 'a) outcome \<Rightarrow> (request, reply) outcome" where
  "as_reply f m = (case m of (log, Inl e) \<Rightarrow> (log, Inl e) | (log, Inr x) \<Rightarrow> (log, Inr (f x)))"

datatype invocation =
    CreateUser pyval
  | RetrieveUser pyval
  | UpdateUser pyval pyval
  | ListUserBalances pyval pyval
  | ListUserReceipts pyval pyval
  | ListBankAccounts pyval pyval
  | CreateBankAccount pyval pyval
  | RetrieveBankAccount pyval pyval
  | UpdateBankAccount pyval pyval pyval
  | CreateBankAccountStatusTransition pyval pyval pyval
  | RetrieveBankAccountStatusTransition pyval pyval pyval
  | ListPrepaidCards pyval pyval
  | CreatePrepaidCard pyval pyval
  | RetrievePrepaidCard pyval pyval
  | ListPrepaidCardStatusTransitions pyval pyval
  | CreatePrepaidCardStatusTransition pyval pyval pyval
  | RetrievePrepaidCardStatusTransition pyval pyval pyval
  | ListPrepaidCardBalances pyval pyval pyval
  | ListPrepaidCardReceipts pyval pyval pyval
  | ListPaperChecks pyval pyval
  | CreatePaperCheck pyval pyval
  | RetrievePaperCheck pyval pyval
  | UpdatePaperCheck pyval pyval pyval
  | CreatePaperCheckStatusTransition pyval pyval pyval
  | RetrievePaperCheckStatusTransition pyval pyval pyval
  | CreatePayment pyval
  | RetrievePayment pyval
  | RetrieveAccount pyval pyval
  | ListAccountBalances pyval pyval pyval
  | ListAccountReceipts pyval pyval pyval
  | RetrieveProgram pyval
  | CreateTransferMethod pyval pyval pyval
  | RetrieveWebhook pyval

fun invoke :: "api \<Rightarrow> invocation \<Rightarrow> (request, reply) outcome" where
  "invoke self (CreateUser data) = as_reply One (createUser self data)"
| "invoke self (RetrieveUser userToken) = as_reply One (retrieveUser self userToken)"
| "invoke self (UpdateUser userToken data) = as_reply One (updateUser self userToken data)"
| "invoke self (ListUserBalances userToken params) = as_reply Raw (listUserBalances self userToken params)"
| "invoke self (ListUserReceipts userToken params) = as_reply Raw (listUserReceipts self userToken params)"
| "invoke self (ListBankAccounts userToken params) = as_reply Many (listBankAccounts self userToken params)"
| "invoke self (CreateBankAccount userToken data) = as_reply One (createBankAccount self userToken data)"
| "invoke self (RetrieveBankAccount userToken bankAccountToken) = as_reply One (retrieveBankAccount self userToken bankAccountToken)"
| "invoke self (UpdateBankAccount userToken bankAccountToken data) = as_reply One (updateBankAccount self userToken bankAccountToken data)"
| "invoke self (CreateBankAccountStatusTransition userToken bankAccountToken data) = as_reply Raw (createBankAccountStatusTransition self userToken bankAccountToken data)"
| "invoke self (RetrieveBankAccountStatusTransition userToken bankAccountToken statusTransitionToken) = as_reply Raw (retrieveBankAccountStatusTransition self userToken bankAccountToken statusTransitionToken)"
| "invoke self (ListPrepaidCards userToken params) = as_reply Many (listPrepaidCards self userToken params)"
| "invoke self (CreatePrepaidCard userToken data) = as_reply One (createPrepaidCard self userToken data)"
| "invoke self (RetrievePrepaidCard userToken prepaidCardToken) = as_reply One (retrievePrepaidCard self userToken prepaidCardToken)"
| "invoke self (ListPrepaidCardStatusTransitions userToken prepaidCardToken) = as_reply Raw (listPrepaidCardStatusTransitions self userToken prepaidCardToken)"
| "invoke self (CreatePrepaidCardStatusTransition userToken prepaidCardToken data) = as_reply Raw (createPrepaidCardStatusTransition self userToken prepaidCardToken data)"
| "invoke self (RetrievePrepaidCardStatusTransition userToken prepaidCardToken statusTransitionToken) = as_reply Raw (retrievePrepaidCardStatusTransition self userToken prepaidCardToken statusTransitionToken)"
| "invoke self (ListPrepaidCardBalances userToken prepaidCardToken params) = as_reply Raw (listPrepaidCardBalances self userToken prepaidCardToken params)"
| "invoke self (ListPrepaidCardReceipts userToken prepaidCardToken params) = as_reply Raw (listPrepaidCardReceipts self userToken prepaidCardToken params)"
| "invoke self (ListPaperChecks userToken params) = as_reply Many (listPaperChecks self userToken params)"
| "invoke self (CreatePaperCheck userToken data) = as_reply One (createPaperCheck self userToken data)"
| "invoke self (RetrievePaperCheck userToken paperCheckToken) = as_reply One (retrievePaperCheck self userToken paperCheckToken)"
| "invoke self (UpdatePaperCheck userToken paperCheckToken data) = as_reply One (updatePaperCheck self userToken paperCheckToken data)"
| "invoke self (CreatePaperCheckStatusTransition userToken paperCheckToken data) = as_reply Raw (createPaperCheckStatusTransition self userToken paperCheckToken data)"
| "invoke self (RetrievePaperCheckStatusTransition userToken paperCheckToken statusTransitionToken) = as_reply Raw (retrievePaperCheckStatusTransition self userToken paperCheckToken statusTransitionToken)"
| "invoke self (CreatePayment data) = as_reply One (createPayment self data)"
| "invoke self (RetrievePayment paymentToken) = as_reply One (retrievePayment self paymentToken)"
| "invoke self (RetrieveAccount progToken accountToken) = as_reply Raw (retrieveAccount self progToken accountToken)"
| "invoke self (ListAccountBalances progToken accountToken params) = as_reply Raw (listAccountBalances self progToken accountToken params)"
| "invoke self (ListAccountReceipts progToken accountToken params) = as_reply Raw (listAccountReceipts self progToken accountToken params)"
| "invoke self (RetrieveProgram progToken) = as_reply Raw (retrieveProgram self progToken)"
| "invoke self (CreateTransferMethod userToken cacheToken data) = as_reply Raw (createTransferMethod self userToken cacheToken data)"
| "invoke self (RetrieveWebhook webhookToken) = as_reply One (retrieveWebhook self webhookToken)"

fun required :: "invocation \<Rightarrow> (string \<times> pyval) list" where
  "required (CreateUser data) = [(''data'', data)]"
| "required (RetrieveUser userToken) = [(''userToken'', userToken)]"
| "required (UpdateUser userToken data) = [(''userToken'', userToken), (''data'', data)]"
| "required (ListUserBalances userToken params) = [(''userToken'', userToken)]"
| "required (ListUserReceipts userToken params) = [(''userToken'', userToken)]"
| "required (ListBankAccounts userToken params) = [(''userToken'', userToken)]"
| "required (CreateBankAccount userToken data) = [(''userToken'', userToken), (''data'', data)]"
| "required (RetrieveBankAccount userToken bankAccountToken) = [(''userToken'', userToken), (''bankAccountToken'', bankAccountToken)]"
| "required (UpdateBankAccount userToken bankAccountToken data) = [(''userToken'', userToken), (''bankAccountToken'', bankAccountToken), (''data'', data)]"
| "required (CreateBankAccountStatusTransition userToken bankAccountToken data) = [(''userToken'', userToken), (''bankAccountToken'', bankAccountToken), (''data'', data)]"
| "required (RetrieveBankAccountStatusTransition userToken bankAccountToken statusTransitionToken) = [(''userToken'', userToken), (''bankAccountToken'', bankAccountToken), (''statusTransitionToken'', statusTransitionToken)]"
| "required (ListPrepaidCards userToken params) = [(''userToken'', userToken)]"
| "required (CreatePrepaidCard userToken data) = [(''userToken'', userToken), (''data'', data)]"
| "required (RetrievePrepaidCard userToken prepaidCardToken) = [(''userToken'', userToken), (''prepaidCardToken'', prepaidCardToken)]"
| "required (ListPrepaidCardStatusTransitions userToken prepaidCardToken) = [(''userToken'', userToken), (''prepaidCardToken'', prepaidCardToken)]"
| "required (CreatePrepaidCardStatusTransition userToken prepaidCardToken data) = [(''userToken'', userToken), (''prepaidCardToken'', prepaidCardToken), (''data'', data)]"
| "required (RetrievePrepaidCardStatusTransition userToken prepaidCardToken statusTransitionToken) = [(''userToken'', userToken), (''prepaidCardToken'', prepaidCardToken), (''statusTransitionToken'', statusTransitionToken)]"
| "required (ListPrepaidCardBalances userToken prepaidCardToken params) = [(''userToken'', userToken), (''prepaidCardToken'', prepaidCardToken)]"
| "required (ListPrepaidCardReceipts userToken prepaidCardToken params) = [(''userToken'', userToken), (''prepaidCardToken'', prepaidCardToken)]"
| "required (ListPaperChecks userToken params) = [(''userToken'', userToken)]"
| "required (CreatePaperCheck userToken data) = [(''userToken'', userToken), (''data'', data)]"
| "required (RetrievePaperCheck userToken paperCheckToken) = [(''userToken'', userToken), (''paperCheckToken'', paperCheckToken)]"
| "required (UpdatePaperCheck userToken paperCheckToken data) = [(''userToken'', userToken), (''paperCheckToken'', paperCheckToken), (''data'', data)]"
| "required (CreatePaperCheckStatusTransition userToken paperCheckToken data) = [(''userToken'', userToken), (''paperCheckToken'', paperCheckToken), (''data'', data)]"
| "required (RetrievePaperCheckStatusTransition userToken paperCheckToken statusTransitionToken) = [(''userToken'', userToken), (''paperCheckToken'', paperCheckToken), (''statusTransitionToken'', statusTransitionToken)]"
| "required (CreatePayment data) = [(''data'', data)]"
| "required (RetrievePayment paymentToken) = [(''paymentToken'', paymentToken)]"
| "required (RetrieveAccount progToken accountToken) = [(''programToken'', progToken), (''accountToken'', accountToken)]"
| "required (ListAccountBalances progToken accountToken params) = [(''programToken'', progToken), (''accountToken'', accountToken)]"
| "required (ListAccountReceipts progToken accountToken params) = [(''programToken'', progToken), (''accountToken'', accountToken)]"
| "required (RetrieveProgram progToken) = [(''programToken'', progToken)]"
| "required (CreateTransferMethod userToken cacheToken data) = [(''userToken'', userToken), (''cacheToken'', cacheToken)]"
| "required (RetrieveWebhook webhookToken) = [(''webhookToken'', webhookToken)]"

text \<open>The first argument of a checklist that is \<^verbatim>\<open>None\<close> or empty.\<close>

fun first_missing :: "(string \<times> pyval) list \<Rightarrow> string option" where
  "first_missing [] = None"
| "first_missing ((n, v) # rest) = (if truthy v then first_missing rest else Some n)"

section \<open>Observed fetch functions and backing datasets\<close>

text \<open>
  A page-fetch function under observation: \<open>logged f\<close> answers as \<open>f\<close> does and
  records the argument of every call.
\<close>

definition logged :: "(pyval \<Rightarrow> error + 'a) \<Rightarrow> pyval \<Rightarrow> (pyval, 'a) outcome" where
  "logged f args = ([args], f args)"

text \<open>
  The backing dataset of the pagination claims: a fixed list \<open>ds\<close>, served in pages. A
  request for \<open>limit\<close> items at \<open>offset\<close> answers with the items
  \<open>offset, ..., offset + limit - 1\<close> that exist; a negative offset or limit is refused.
  \<open>dataset_page\<close> is the page-fetch function itself, \<open>dataset_server\<close> the transport
  that serves the same pages under one endpoint, as \<^verbatim>\<open>{"data": [...]}\<close>.
\<close>

definition dataset_page :: "'a list \<Rightarrow> pyval \<Rightarrow> error + 'a list" where
  "dataset_page ds args =
     (case args of
        PDict d \<Rightarrow>
          (case (map_of d ''offset'', map_of d ''limit'') of
             (Some (PInt off), Some (PInt lim)) \<Rightarrow>
               if 0 \<le> off \<and> 0 \<le> lim then Inr (take (nat lim) (drop (nat off) ds))
               else Inl (TransportError ''bad page'')
           | _ \<Rightarrow> Inl (TransportError ''bad page''))
      | _ \<Rightarrow> Inl (TransportError ''bad page''))"

definition dataset_server :: "string \<Rightarrow> pyval list \<Rightarrow> transport" where
  "dataset_server endpoint ds rq =
     (case rq of
        DoGet path (Some params) \<Rightarrow>
          if path = endpoint then
            (case dataset_page ds params of
               Inl e \<Rightarrow> Inl e
             | Inr items \<Rightarrow> Inr (PDict [(''data'', PList items)]))
          else Inl (TransportError ''not found'')
      | _ \<Rightarrow> Inl (TransportError ''not found''))"

text \<open>A client whose transport answers every request with the same body.\<close>

definition fixed_api :: "pyval \<Rightarrow> api" where
  "fixed_api body =
     \<lparr>username = PStr ''user'', password = PStr ''secret'', programToken = PStr ''prg-1'',
      server = PStr ''https://sandbox'', apiClient = (\<lambda>rq. Inr body)\<rparr>"

text \<open>A dataset of 250 distinct items, and a client whose transport serves a dataset.\<close>

definition user_no :: "nat \<Rightarrow> pyval" where
  "user_no i = PDict [(''token'', PInt (int i))]"

definition users250 :: "pyval list" where
  "users250 = map user_no [0..<250]"

definition dataset_api :: "string \<Rightarrow> pyval list \<Rightarrow> api" where
  "dataset_api endpoint ds =
     \<lparr>username = PStr ''user'', password = PStr ''secret'', programToken = PStr ''prg-1'',
      server = PStr ''https://sandbox'', apiClient = dataset_server endpoint ds\<rparr>"

section \<open>Auxiliary facts\<close>

text \<open>
  The loop, run on a fetch function whose first \<open>n\<close> pages are known: it makes those
  \<open>n\<close> calls and returns their concatenation, when no earlier page ends it and the
  last one does.
\<close>

lemma fetch_loop_from:
  assumes pages: "\<And>i. i < n \<Longrightarrow> func (page (off + chunksize * int i) chunksize) = (lg i, Inr (pg i))"
    and full: "\<And>i. Suc i < n \<Longrightarrow> chunksize \<le> int (length (pg i))"
    and more: "\<And>i. Suc i < n \<Longrightarrow> \<not> reached maximum (results @ concat (map pg [0..<Suc i]))"
    and last: "int (length (pg (n - 1))) < chunksize \<or> reached maximum (results @ concat (map pg [0..<n]))"
  shows "j < n \<Longrightarrow>
    fetch_loop func maximum (off + chunksize * int j)
      (results @ concat (map pg [0..<j])) (log @ concat (map lg [0..<j]))
    = Some (log @ concat (map lg [0..<n]), Inr (results @ concat (map pg [0..<n])))"
proof (induction "n - Suc j" arbitrary: j)
  case 0
  then have n: "n = Suc j" by simp
  have p: "func (page (off + chunksize * int j) chunksize) = (lg j, Inr (pg j))"
    using pages [of j] n by simp
  from last n have "int (length (pg j)) < chunksize \<or> reached maximum (results @ concat (map pg [0..<Suc j]))"
    by simp
  then show ?case
    by (subst fetch_loop.simps) (auto simp: p n Let_def)
next
  case (Suc d)
  then have lt: "Suc j < n" by simp
  have p: "func (page (off + chunksize * int j) chunksize) = (lg j, Inr (pg j))"
    using pages [of j] lt by simp
  have step: "off + chunksize * int j + chunksize = off + chunksize * int (Suc j)"
    by (simp add: algebra_simps)
  have ih: "fetch_loop func maximum (off + chunksize * int (Suc j))
      (results @ concat (map pg [0..<Suc j])) (log @ concat (map lg [0..<Suc j]))
    = Some (log @ concat (map lg [0..<n]), Inr (results @ concat (map pg [0..<n])))"
    using Suc.hyps(1) [of "Suc j"] Suc.hyps(2) lt by simp
  show ?case
    apply (subst fetch_loop.simps)
    using full [OF lt] more [OF lt] ih
    apply (simp add: p Let_def step del: upt_Suc)
    apply (simp add: algebra_simps)
    done
qed

lemma fetch_loop_run:
  assumes "\<And>i. i < n \<Longrightarrow> func (page (off + chunksize * int i) chunksize) = (lg i, Inr (pg i))"
    and "\<And>i. Suc i < n \<Longrightarrow> chunksize \<le> int (length (pg i))"
    and "\<And>i. Suc i < n \<Longrightarrow> \<not> reached maximum (concat (map pg [0..<Suc i]))"
    and "int (length (pg (n - 1))) < chunksize \<or> reached maximum (concat (map pg [0..<n]))"
    and "0 < n"
  shows "fetch_loop func maximum off [] [] = Some (concat (map lg [0..<n]), Inr (concat (map pg [0..<n])))"
  using fetch_loop_from [of n func off lg pg maximum "[]" 0 "[]"] assms by simp

lemma concat_pages:
  "concat (map (\<lambda>i. take c (drop (a + c * i) ds)) [0..<n]) = take (c * n) (drop a ds)"
proof (induction n)
  case 0
  show ?case by simp
next
  case (Suc n)
  have "take (c * n + c) (drop a ds) = take (c * n) (drop a ds) @ take c (drop (c * n) (drop a ds))"
    by (rule take_add)
  then show ?case using Suc by (simp add: add.commute)
qed


lemma concat_map_pages:
  "concat (map (\<lambda>i. map g (take c (drop (a + c * i) ds))) [0..<n]) = map g (take (c * n) (drop a ds))"
proof -
  have "concat (map (\<lambda>i. map g (take c (drop (a + c * i) ds))) [0..<n])
      = map g (concat (map (\<lambda>i. take c (drop (a + c * i) ds)) [0..<n]))"
    by (simp add: map_concat comp_def)
  then show ?thesis by (simp add: concat_pages)
qed

lemma ceil_div_ge:
  fixes M c :: nat
  assumes "0 < c"
  shows "M \<le> c * ((M + (c - 1)) div c)"
proof -
  have "M + (c - 1) = c * ((M + (c - 1)) div c) + (M + (c - 1)) mod c" by simp
  moreover have "(M + (c - 1)) mod c < c" using assms by simp
  ultimately show ?thesis by linarith
qed

lemma fetches_arith:
  fixes R M c :: nat
  assumes "1 \<le> M" and c: "0 < c"
  defines "n \<equiv> min (R div c + 1) ((M + (c - 1)) div c)"
  shows "0 < n"
    and "\<And>i. Suc i < n \<Longrightarrow> c * Suc i \<le> R"
    and "\<And>i. Suc i < n \<Longrightarrow> c * Suc i < M"
    and "R < c * n \<or> M \<le> c * n"
proof -
  have b: "M \<le> c * ((M + (c - 1)) div c)" using c by (rule ceil_div_ge)
  have "0 < (M + (c - 1)) div c"
  proof (rule ccontr)
    assume "\<not> 0 < (M + (c - 1)) div c"
    with b have "M = 0" by simp
    with assms(1) show False by simp
  qed
  then show "0 < n" unfolding n_def by simp
  show "c * Suc i \<le> R" if "Suc i < n" for i
  proof -
    from that have "Suc i \<le> R div c" unfolding n_def by simp
    then have "c * Suc i \<le> c * (R div c)" by (rule mult_le_mono2)
    also have "\<dots> \<le> R" by simp
    finally show ?thesis .
  qed
  show "c * Suc i < M" if "Suc i < n" for i
  proof -
    from that have "Suc (Suc i) \<le> (M + (c - 1)) div c" unfolding n_def by simp
    then have "c * Suc (Suc i) \<le> c * ((M + (c - 1)) div c)" by (rule mult_le_mono2)
    also have "\<dots> \<le> M + (c - 1)" by simp
    finally have "c * Suc i + c \<le> M + (c - 1)" by simp
    with c show ?thesis by linarith
  qed
  show "R < c * n \<or> M \<le> c * n"
  proof -
    have a: "R < c * (R div c + 1)" using c by (simp add: dividend_less_times_div)
    show ?thesis unfolding n_def min_def using a b by (simp split: if_splits)
  qed
qed

lemma page_length:
  "length (map g (take c (drop (a + c * i) ds))) = min c (length ds - a - c * i)"
  by simp

lemma full_page:
  fixes c i R :: nat
  assumes "c * Suc i \<le> R"
  shows "min c (R - c * i) = c"
  using assms by simp

lemma short_page:
  fixes c n R :: nat
  assumes "R < c * n" and "0 < n"
  shows "min c (R - c * (n - 1)) < c"
proof -
  from assms(2) obtain k where k: "n = Suc k" by (cases n) auto
  have "0 < c" using assms(1) by (cases "c = 0") simp_all
  moreover from k assms(1) have "R < c * k + c" by simp
  ultimately have "R - c * k < c" by (simp add: less_diff_conv2 add.commute)
  then show ?thesis using k by simp
qed

lemma fetch_loop_dataset_bounded:
  fixes ds :: "'a list" and g :: "'a \<Rightarrow> 'b"
  assumes func: "\<And>i. func (page (off + chunksize * int i) chunksize)
                   = (lg i, Inr (map g (take 100 (drop (a + 100 * i) ds))))"
    and m: "1 \<le> m"
  defines "n \<equiv> min ((length ds - a) div 100 + 1) ((nat m + 99) div 100)"
  shows "fetch_loop func (Some m) off [] []
         = Some (concat (map lg [0..<n]), Inr (map g (take (100 * n) (drop a ds))))"
proof -
  let ?pg = "\<lambda>i. map g (take 100 (drop (a + 100 * i) ds))"
  let ?R = "length ds - a"
  have M: "1 \<le> nat m" using m by simp
  have c: "0 < (100::nat)" by simp
  have n: "n = min (?R div 100 + 1) ((nat m + (100 - 1)) div 100)"
    unfolding n_def by simp
  note ar = fetches_arith [OF M c, where R = ?R, folded n]
  have acc: "concat (map ?pg [0..<k]) = map g (take (100 * k) (drop a ds))" for k
    by (rule concat_map_pages)
  have len: "length (?pg i) = min 100 (?R - 100 * i)" for i
    by (rule page_length)
  have full: "chunksize \<le> int (length (?pg i))" if "Suc i < n" for i
    unfolding len full_page [OF ar(2) [OF that]] by (simp add: chunksize_def)
  have more: "\<not> reached (Some m) (concat (map ?pg [0..<Suc i]))" if "Suc i < n" for i
  proof -
    have "length (take (100 * Suc i) (drop a ds)) = 100 * Suc i"
      using ar(2) [OF that] by simp
    moreover have "int (100 * Suc i) < m" using ar(3) [OF that] by linarith
    ultimately show ?thesis unfolding acc by (simp add: reached_def)
  qed
  have last: "int (length (?pg (n - 1))) < chunksize \<or> reached (Some m) (concat (map ?pg [0..<n]))"
  proof (cases "?R < 100 * n")
    case True
    have "length (?pg (n - 1)) < 100"
      unfolding len by (rule short_page [OF True ar(1)])
    then have "int (length (?pg (n - 1))) < chunksize"
      unfolding chunksize_def by linarith
    then show ?thesis ..
  next
    case False
    with ar(4) have "nat m \<le> 100 * n" and "100 * n \<le> ?R" by simp_all
    then have "length (take (100 * n) (drop a ds)) = 100 * n" and "m \<le> int (100 * n)"
      by simp_all
    then have "reached (Some m) (concat (map ?pg [0..<n]))"
      unfolding acc using m by (simp add: reached_def)
    then show ?thesis ..
  qed
  have "fetch_loop func (Some m) off [] []
        = Some (concat (map lg [0..<n]), Inr (concat (map ?pg [0..<n])))"
    using func full more last ar(1) by (rule fetch_loop_run [where pg = ?pg])
  then show ?thesis unfolding acc .
qed

lemma take_take_cover:
  assumes "length xs < k \<or> j \<le> k"
  shows "take j (take k xs) = take j xs"
  using assms by (auto simp: min_def)

lemma getCollection_paged_dataset:
  fixes ds :: "'a list" and g :: "'a \<Rightarrow> 'b"
  assumes func: "\<And>i. func (page (off + chunksize * int i) chunksize)
                   = (lg i, Inr (map g (take 100 (drop (nat off + 100 * i) ds))))"
    and mx: "dict_get p ''maximum'' = Some m" and m: "1 \<le> m"
    and off: "or_zero (dict_get p ''offset'') = off"
  defines "n \<equiv> min ((length ds - nat off) div 100 + 1) ((nat m + 99) div 100)"
  shows "getCollection func (Some p)
         = Some (concat (map lg [0..<n]), Inr (map g (take (nat m) (drop (nat off) ds))))"
proof -
  have loop: "fetch_loop func (Some m) off [] []
      = Some (concat (map lg [0..<n]), Inr (map g (take (100 * n) (drop (nat off) ds))))"
    unfolding n_def using func m by (rule fetch_loop_dataset_bounded)
  have M: "1 \<le> nat m" using m by simp
  have c: "0 < (100::nat)" by simp
  have n: "n = min ((length ds - nat off) div 100 + 1) ((nat m + (100 - 1)) div 100)"
    unfolding n_def by simp
  have "length (drop (nat off) ds) < 100 * n \<or> nat m \<le> 100 * n"
    using fetches_arith(4) [OF M c, where R = "length ds - nat off", folded n] by simp
  then have cut: "take (nat m) (take (100 * n) (drop (nat off) ds)) = take (nat m) (drop (nat off) ds)"
    by (rule take_take_cover)
  have "slice_to (map g (take (100 * n) (drop (nat off) ds))) (Some m)
        = map g (take (nat m) (drop (nat off) ds))"
    using m cut by (simp add: slice_to_def take_map)
  then show ?thesis
    using mx m off loop by (simp add: getCollection_def)
qed

lemma dataset_page_at:
  assumes "0 \<le> off"
  shows "dataset_page ds (page (off + chunksize * int i) chunksize)
         = Inr (take 100 (drop (nat off + 100 * i) ds))"
proof -
  have "nat (off + 100 * int i) = nat off + 100 * i"
    using assms by (simp add: nat_add_distrib nat_mult_distrib)
  then show ?thesis
    using assms by (simp add: dataset_page_def page_def chunksize_def)
qed

lemma concat_singletons: "concat (map (\<lambda>i. [h i]) xs) = map h xs"
  by (induction xs) simp_all

lemma construct_all_imported:
  assumes "k \<in> set imported"
  shows "construct_all k xs = ([], Inr (map (Resource k) xs))"
  using assms
  by (induction xs) (simp_all add: construct_def and_then_def return_def)

lemma listUsers_dataset_page:
  assumes tr: "apiClient self = dataset_server ''users'' ds" and "0 \<le> off"
  shows "listUsers self (page (off + chunksize * int i) chunksize)
         = ([DoGet ''users'' (Some (page (off + chunksize * int i) chunksize))],
            Inr (map (Resource User) (take 100 (drop (nat off + 100 * i) ds))))"
proof -
  have "User \<in> set imported" by (simp add: imported_def)
  then have w: "wrap_data User (PDict [(''data'', PList items)]) = ([], Inr (map (Resource User) items))"
    for items
    by (simp add: wrap_data_def lift_def and_then_def construct_all_imported)
  show ?thesis
    using dataset_page_at [OF assms(2), of ds i]
    by (simp add: listUsers_def doGet_def tr dataset_server_def and_then_def w)
qed

lemma getUsers_dataset:
  assumes tr: "apiClient self = dataset_server ''users'' ds"
    and mx: "dict_get p ''maximum'' = Some m" and m: "1 \<le> m"
    and off: "or_zero (dict_get p ''offset'') = off" and pos: "0 \<le> off"
  shows "getUsers self (Some p)
         = Some (map (\<lambda>i. DoGet ''users'' (Some (page (off + 100 * int i) 100)))
                   [0..<min ((length ds - nat off) div 100 + 1) ((nat m + 99) div 100)],
                 Inr (map (Resource User) (take (nat m) (drop (nat off) ds))))"
  unfolding getUsers_def
  using getCollection_paged_dataset [OF listUsers_dataset_page [OF tr pos] mx m off]
  by (simp add: concat_singletons chunksize_def)

text \<open>The loop without a maximum: it runs to the first short page.\<close>

lemma getCollection_unbounded_run:
  assumes "dict_get p ''maximum'' = None"
    and pages: "\<And>i. i \<le> k \<Longrightarrow> f (page (or_zero (dict_get p ''offset'') + 100 * int i) 100) = Inr (pg i)"
    and full: "\<And>i. i < k \<Longrightarrow> 100 \<le> length (pg i)"
    and short: "length (pg k) < 100"
  shows "getCollection (logged f) (Some p)
         = Some (map (\<lambda>i. page (or_zero (dict_get p ''offset'') + 100 * int i) 100) [0..<Suc k],
                 Inr (concat (map pg [0..<Suc k])))"
proof -
  let ?off = "or_zero (dict_get p ''offset'')"
  let ?lg = "\<lambda>i. [page (?off + chunksize * int i) chunksize]"
  have a: "logged f (page (?off + chunksize * int i) chunksize) = (?lg i, Inr (pg i))"
    if "i < Suc k" for i
    using pages [of i] that by (simp add: logged_def chunksize_def)
  have b: "chunksize \<le> int (length (pg i))" if "Suc i < Suc k" for i
    using full [of i] that by (simp add: chunksize_def)
  have c: "\<not> reached None (concat (map pg [0..<Suc i]))" if "Suc i < Suc k" for i
    by (simp add: reached_def)
  have d: "int (length (pg (Suc k - 1))) < chunksize \<or> reached None (concat (map pg [0..<Suc k]))"
    using short by (simp add: chunksize_def)
  have "fetch_loop (logged f) None ?off [] []
        = Some (concat (map ?lg [0..<Suc k]), Inr (concat (map pg [0..<Suc k])))"
    using a b c d zero_less_Suc by (rule fetch_loop_run)
  then show ?thesis
    using assms(1)
    by (simp add: getCollection_def slice_to_def concat_singletons chunksize_def del: upt_Suc)
qed

lemma last_page_of_dataset:
  fixes c R :: nat
  assumes "0 < c"
  shows "min c (R - c * (R div c)) < c"
proof -
  have "R < c * (R div c + 1)" using assms by (simp add: dividend_less_times_div)
  from short_page [OF this] show ?thesis by simp
qed

lemma full_page_of_dataset:
  fixes c R i :: nat
  assumes "i < R div c"
  shows "min c (R - c * i) = c"
proof -
  from assms have "Suc i \<le> R div c" by simp
  then have "c * Suc i \<le> c * (R div c)" by (rule mult_le_mono2)
  also have "\<dots> \<le> R" by simp
  finally show ?thesis by (rule full_page)
qed

lemma getCollection_unbounded_dataset:
  assumes mx: "dict_get p ''maximum'' = None"
    and off: "or_zero (dict_get p ''offset'') = off" and pos: "0 \<le> off"
  shows "getCollection (logged (dataset_page ds)) (Some p)
         = Some (map (\<lambda>i. page (off + 100 * int i) 100) [0..<Suc ((length ds - nat off) div 100)],
                 Inr (drop (nat off) ds))"
proof -
  let ?R = "length ds - nat off"
  let ?k = "?R div 100"
  let ?pg = "\<lambda>i. map (\<lambda>x. x) (take 100 (drop (nat off + 100 * i) ds))"
  have c: "0 < (100::nat)" by simp
  have len: "length (?pg i) = min 100 (?R - 100 * i)" for i
    by (rule page_length)
  have pages: "dataset_page ds (page (or_zero (dict_get p ''offset'') + 100 * int i) 100) = Inr (?pg i)"
    for i
    using dataset_page_at [OF pos, of ds i] by (simp add: off chunksize_def)
  have full: "100 \<le> length (?pg i)" if "i < ?k" for i
    unfolding len full_page_of_dataset [OF that] by simp
  have short: "length (?pg ?k) < 100"
    unfolding len by (rule last_page_of_dataset [OF c])
  have "length (drop (nat off) ds) < 100 * Suc ?k"
    using dividend_less_times_div [OF c, of ?R] by simp
  then have all: "take (100 * Suc ?k) (drop (nat off) ds) = drop (nat off) ds"
    by simp
  have "concat (map ?pg [0..<Suc ?k]) = map (\<lambda>x. x) (take (100 * Suc ?k) (drop (nat off) ds))"
    by (rule concat_map_pages)
  with all have cc: "concat (map ?pg [0..<Suc ?k]) = drop (nat off) ds" by simp
  show ?thesis
    using getCollection_unbounded_run [of p ?k "dataset_page ds" ?pg, OF mx pages full short]
    unfolding cc off .
qed

text \<open>The operations with required arguments, and what the first missing one does.\<close>

lemmas op_defs = createUser_def retrieveUser_def updateUser_def listUserBalances_def listUserReceipts_def listBankAccounts_def createBankAccount_def retrieveBankAccount_def updateBankAccount_def createBankAccountStatusTransition_def retrieveBankAccountStatusTransition_def listPrepaidCards_def createPrepaidCard_def retrievePrepaidCard_def listPrepaidCardStatusTransitions_def createPrepaidCardStatusTransition_def retrievePrepaidCardStatusTransition_def listPrepaidCardBalances_def listPrepaidCardReceipts_def listPaperChecks_def createPaperCheck_def retrievePaperCheck_def updatePaperCheck_def createPaperCheckStatusTransition_def retrievePaperCheckStatusTransition_def createPayment_def retrievePayment_def retrieveAccount_def listAccountBalances_def listAccountReceipts_def retrieveProgram_def createTransferMethod_def retrieveWebhook_def

lemma first_missing_some:
  assumes "(a, v) \<in> set args" and "\<not> truthy v"
  shows "\<exists>n w. first_missing args = Some n \<and> (n, w) \<in> set args \<and> \<not> truthy w"
  using assms by (induction args) (auto, blast+)

lemma invoke_first_missing:
  assumes "first_missing (required c) = Some n"
  shows "invoke self c = ([], Inl (HyperwalletException (n @ '' is required'')))"
  using assms
  by (cases c) (auto simp: op_defs as_reply_def raise_def split: if_splits)

text \<open>A fetch that raises on the first page ends the loop with that exception.\<close>

lemma fetch_loop_first_page_raises:
  assumes "func (page offset chunksize) = (l, Inl e)"
  shows "fetch_loop func maximum offset results log = Some (log @ l, Inl e)"
  by (subst fetch_loop.simps) (simp add: assms)

lemma page_as_token_fails:
  "os_path_join ''users'' [page offset limit, PStr segment] = Inl AttributeError"
  by (simp add: page_def)

section \<open>Results\<close>

text \<open>
  C1 (amended): with a maximum \<open>m \<ge> 1\<close>, a starting offset \<open>off \<ge> 0\<close> and a backing
  dataset \<open>ds\<close>, the accumulator returns the first \<open>m\<close> items of the dataset from
  \<open>off\<close> on, that is \<open>min m (length ds - off)\<close> items (none when \<open>off\<close> is past the
  end), and every fetch asks for 100 items, at the offsets \<open>off, off + 100, ...\<close>; the
  number of fetches is the smaller of \<open>(length ds - off) div 100 + 1\<close> and \<open>m\<close> divided
  by 100, rounded up.
\<close>

theorem getCollection_bounded_dataset:
  assumes "dict_get p ''maximum'' = Some m" and "1 \<le> m"
    and "or_zero (dict_get p ''offset'') = off" and "0 \<le> off"
  shows "getCollection (logged (dataset_page ds)) (Some p)
         = Some (map (\<lambda>i. page (off + 100 * int i) 100)
                   [0..<min ((length ds - nat off) div 100 + 1) ((nat m + 99) div 100)],
                 Inr (take (nat m) (drop (nat off) ds)))
       \<and> length (take (nat m) (drop (nat off) ds)) = min (nat m) (length ds - nat off)"
proof -
  have func: "logged (dataset_page ds) (page (off + chunksize * int i) chunksize)
      = ([page (off + chunksize * int i) chunksize],
         Inr (map (\<lambda>x. x) (take 100 (drop (nat off + 100 * i) ds))))" for i
    using dataset_page_at [OF assms(4), of ds i] by (simp add: logged_def)
  show ?thesis
    using getCollection_paged_dataset [OF func assms(1,2,3)]
    by (simp add: concat_singletons chunksize_def)
qed

theorem getCollection_bounded_dataset_witness:
  "getCollection (logged (dataset_page [0..<250::nat])) (Some [(''offset'', Some 30), (''maximum'', Some 120)])
     = Some ([page 30 100, page 130 100], Inr [30..<150])
   \<and> length [30..<150::nat] = min 120 (250 - 30)"
proof -
  have a: "dict_get [(''offset'', Some 30), (''maximum'', Some 120)] ''maximum'' = Some 120"
    and b: "or_zero (dict_get [(''offset'', Some 30), (''maximum'', Some 120)] ''offset'') = 30"
    by (simp_all add: dict_get_def or_zero_def)
  have c: "(1::int) \<le> 120" and d: "(0::int) \<le> 30" by simp_all
  have e: "[0..<2] = [0, Suc 0]" by (simp add: upt_rec)
  show ?thesis
    using getCollection_bounded_dataset [OF a c b d, of "[0..<250::nat]"] by (simp add: e)
qed

text \<open>
  C1 as stated promises \<open>min maximum M\<close> items for a dataset of size \<open>M\<close>. With 50
  items, offset 10 and maximum 100 the accumulator returns the 40 items from 10 on, not
  \<open>min 100 50 = 50\<close>.
\<close>

theorem getCollection_offset_counterexample:
  "getCollection (logged (dataset_page [0..<50::nat])) (Some [(''offset'', Some 10), (''maximum'', Some 100)])
     = Some ([page 10 100], Inr [10..<50])
   \<and> length [10..<50::nat] \<noteq> min 100 (length [0..<50::nat])"
proof -
  have a: "dict_get [(''offset'', Some 10), (''maximum'', Some 100)] ''maximum'' = Some 100"
    and b: "or_zero (dict_get [(''offset'', Some 10), (''maximum'', Some 100)] ''offset'') = 10"
    by (simp_all add: dict_get_def or_zero_def)
  have c: "(1::int) \<le> 100" and d: "(0::int) \<le> 10" by simp_all
  have func: "logged (dataset_page [0..<50::nat]) (page (10 + chunksize * int i) chunksize)
      = ([page (10 + chunksize * int i) chunksize],
         Inr (map (\<lambda>x. x) (take 100 (drop (nat 10 + 100 * i) [0..<50::nat]))))" for i
    using dataset_page_at [OF d, of "[0..<50::nat]" i] by (simp add: logged_def)
  show ?thesis
    using getCollection_paged_dataset [OF func a c b]
    by (simp add: chunksize_def)
qed

text \<open>
  C2 (amended): on a dataset of exactly 250 items,
  \<^verbatim>\<open>getUsers({"offset": 0, "maximum": 120})\<close> returns exactly the first 120 items as
  User resources and issues exactly two page fetches, at offsets 0 and 100: after the
  second page the 200 accumulated results reach the maximum, and they are cut to 120.
\<close>

theorem getUsers_250_maximum_120:
  assumes "apiClient self = dataset_server ''users'' ds" and "length ds = 250"
  shows "getUsers self (Some [(''offset'', Some 0), (''maximum'', Some 120)])
         = Some ([DoGet ''users'' (Some (page 0 100)), DoGet ''users'' (Some (page 100 100))],
                 Inr (map (Resource User) (take 120 ds)))"
proof -
  have a: "dict_get [(''offset'', Some 0), (''maximum'', Some 120)] ''maximum'' = Some 120"
    and b: "or_zero (dict_get [(''offset'', Some 0), (''maximum'', Some 120)] ''offset'') = 0"
    by (simp_all add: dict_get_def or_zero_def)
  have c: "(1::int) \<le> 120" and d: "(0::int) \<le> 0" by simp_all
  have e: "[0..<2] = [0, Suc 0]" by (simp add: upt_rec)
  show ?thesis
    using getUsers_dataset [OF assms(1) a c b d] assms(2) by (simp add: e)
qed

theorem getUsers_250_maximum_120_witness:
  "getUsers (dataset_api ''users'' users250) (Some [(''offset'', Some 0), (''maximum'', Some 120)])
     = Some ([DoGet ''users'' (Some (page 0 100)), DoGet ''users'' (Some (page 100 100))],
             Inr (map (Resource User) (take 120 users250)))"
proof -
  have a: "apiClient (dataset_api ''users'' users250) = dataset_server ''users'' users250"
    by (simp add: dataset_api_def)
  have b: "length users250 = 250" by (simp add: users250_def)
  show ?thesis by (rule getUsers_250_maximum_120 [OF a b])
qed

text \<open>
  C2 as stated expects three fetches, at offsets 0, 100 and 200. The fetches made are
  the two at 0 and 100.
\<close>

theorem getUsers_250_fetches_counterexample:
  "map_option fst (getUsers (dataset_api ''users'' users250) (Some [(''offset'', Some 0), (''maximum'', Some 120)]))
     = Some [DoGet ''users'' (Some (page 0 100)), DoGet ''users'' (Some (page 100 100))]
   \<and> map_option fst (getUsers (dataset_api ''users'' users250) (Some [(''offset'', Some 0), (''maximum'', Some 120)]))
     \<noteq> Some [DoGet ''users'' (Some (page 0 100)), DoGet ''users'' (Some (page 100 100)),
              DoGet ''users'' (Some (page 200 100))]"
proof -
  have t: "apiClient (dataset_api ''users'' users250) = dataset_server ''users'' users250"
    by (simp add: dataset_api_def)
  have l: "length users250 = 250" by (simp add: users250_def)
  have a: "dict_get [(''offset'', Some 0), (''maximum'', Some 120)] ''maximum'' = Some 120"
    and b: "or_zero (dict_get [(''offset'', Some 0), (''maximum'', Some 120)] ''offset'') = 0"
    by (simp_all add: dict_get_def or_zero_def)
  have c: "(1::int) \<le> 120" and d: "(0::int) \<le> 0" by simp_all
  have e: "[0..<2] = [0, Suc 0]" by (simp add: upt_rec)
  show ?thesis
    using getUsers_dataset [OF t a c b d] l by (simp add: e)
qed

text \<open>
  C7: a maximum below 1 gives the empty sequence, and the page-fetch function is not
  called at all, whatever that function is.
\<close>

theorem getCollection_maximum_below_one:
  assumes "dict_get p ''maximum'' = Some m" and "m < 1"
  shows "getCollection func (Some p) = Some ([], Inr [])"
  using assms by (simp add: getCollection_def return_def)

theorem getCollection_maximum_below_one_witness:
  "getCollection (logged (\<lambda>args. Inr [args])) (Some [(''offset'', Some 7), (''maximum'', Some 0)]) = Some ([], Inr [])
   \<and> getCollection (logged (\<lambda>args. Inr [args])) (Some [(''maximum'', Some (- 3))]) = Some ([], Inr [])"
proof -
  have a: "dict_get [(''offset'', Some 7), (''maximum'', Some 0)] ''maximum'' = Some 0"
    and b: "dict_get [(''maximum'', Some (- 3))] ''maximum'' = Some (- 3)"
    by (simp_all add: dict_get_def)
  show ?thesis
    using getCollection_maximum_below_one [OF a, of "logged (\<lambda>args. Inr [args])"]
          getCollection_maximum_below_one [OF b, of "logged (\<lambda>args. Inr [args])"]
    by simp
qed

text \<open>
  C8: with no maximum in the parameters and starting offset \<open>off\<close>, the accumulator
  requests \<^verbatim>\<open>{'offset': off + 100 i, 'limit': 100}\<close> for \<open>i = 0, 1, ...\<close> until a fetch
  returns fewer than 100 items, and returns the concatenation of all pages seen. For
  any fetch function: if page \<open>k\<close> is the first short one, exactly the \<open>k + 1\<close>
  fetches at \<open>off, off + 100, ..., off + 100 k\<close> are made. For a backing dataset
  \<open>ds\<close>: the fetches are the \<open>(length ds - off) div 100 + 1\<close> ones from \<open>off\<close> on,
  and the result is every item of the dataset from \<open>off\<close> on.
\<close>

theorem getCollection_no_maximum:
  assumes "dict_get p ''maximum'' = None" and "or_zero (dict_get p ''offset'') = off"
  shows "((\<forall>i\<le>k. f (PDict [(''offset'', PInt (off + 100 * int i)), (''limit'', PInt 100)]) = Inr (pg i))
            \<and> (\<forall>i<k. 100 \<le> length (pg i)) \<and> length (pg k) < 100
          \<longrightarrow> getCollection (logged f) (Some p)
               = Some (map (\<lambda>i. PDict [(''offset'', PInt (off + 100 * int i)), (''limit'', PInt 100)])
                         [0..<Suc k],
                       Inr (concat (map pg [0..<Suc k]))))
       \<and> (0 \<le> off
          \<longrightarrow> getCollection (logged (dataset_page ds)) (Some p)
               = Some (map (\<lambda>i. PDict [(''offset'', PInt (off + 100 * int i)), (''limit'', PInt 100)])
                         [0..<(length ds - nat off) div 100 + 1],
                       Inr (drop (nat off) ds)))"
proof (intro conjI impI)
  assume h: "(\<forall>i\<le>k. f (PDict [(''offset'', PInt (off + 100 * int i)), (''limit'', PInt 100)]) = Inr (pg i))
            \<and> (\<forall>i<k. 100 \<le> length (pg i)) \<and> length (pg k) < 100"
  have pages: "f (page (or_zero (dict_get p ''offset'') + 100 * int i) 100) = Inr (pg i)" if "i \<le> k" for i
    using h that by (simp add: page_def assms(2))
  have full: "100 \<le> length (pg i)" if "i < k" for i using h that by simp
  have short: "length (pg k) < 100" using h by simp
  show "getCollection (logged f) (Some p)
      = Some (map (\<lambda>i. PDict [(''offset'', PInt (off + 100 * int i)), (''limit'', PInt 100)]) [0..<Suc k],
              Inr (concat (map pg [0..<Suc k])))"
    using getCollection_unbounded_run [where p = p and k = k and f = f and pg = pg, OF assms(1) pages full short]
    by (simp add: page_def assms(2) del: upt_Suc)
next
  assume "0 \<le> off"
  from getCollection_unbounded_dataset [OF assms this, of ds]
  show "getCollection (logged (dataset_page ds)) (Some p)
      = Some (map (\<lambda>i. PDict [(''offset'', PInt (off + 100 * int i)), (''limit'', PInt 100)])
                [0..<(length ds - nat off) div 100 + 1],
              Inr (drop (nat off) ds))"
    by (simp add: page_def del: upt_Suc)
qed

text \<open>
  250 items from offset 30: three fetches, at 30, 130 and 230, the pages
  \<open>[30..<130]\<close>, \<open>[130..<230]\<close> and the short \<open>[230..<250]\<close>, returned in one sequence.
  50 items with no parameters at all: all 50 after exactly one fetch.
\<close>

theorem getCollection_no_maximum_witness:
  "getCollection (logged (dataset_page [0..<250::nat])) (Some [(''offset'', Some 30)])
     = Some ([PDict [(''offset'', PInt 30), (''limit'', PInt 100)],
              PDict [(''offset'', PInt 130), (''limit'', PInt 100)],
              PDict [(''offset'', PInt 230), (''limit'', PInt 100)]],
             Inr ([30..<130] @ [130..<230] @ [230..<250]))
   \<and> getCollection (logged (dataset_page [0..<250::nat])) (Some [(''offset'', Some 30)])
     = Some ([PDict [(''offset'', PInt 30), (''limit'', PInt 100)],
              PDict [(''offset'', PInt 130), (''limit'', PInt 100)],
              PDict [(''offset'', PInt 230), (''limit'', PInt 100)]],
             Inr [30..<250])
   \<and> getCollection (logged (dataset_page [0..<50::nat])) (Some [])
     = Some ([PDict [(''offset'', PInt 0), (''limit'', PInt 100)]], Inr [0..<50])"
proof -
  let ?p = "[(''offset'', Some (30::int))]"
  let ?pg = "\<lambda>i::nat. if i = 0 then [30..<130::nat] else if i = 1 then [130..<230] else [230..<250]"
  have mx: "dict_get ?p ''maximum'' = None" and off: "or_zero (dict_get ?p ''offset'') = 30"
    by (simp_all add: dict_get_def or_zero_def)
  have mx0: "dict_get [] ''maximum'' = None" and off0: "or_zero (dict_get [] ''offset'') = 0"
    by (simp_all add: dict_get_def or_zero_def)
  have e3: "[0..<Suc 2] = [0, 1, 2]" and e3n: "[0..<3::nat] = [0, 1, 2]" by (simp_all add: upt_rec)
  have le2: "i = 0 \<or> i = 1 \<or> i = 2" if "i \<le> 2" for i :: nat using that by linarith
  have p0: "dataset_page [0..<250::nat] (PDict [(''offset'', PInt 30), (''limit'', PInt 100)]) = Inr (?pg 0)"
    and p1: "dataset_page [0..<250::nat] (PDict [(''offset'', PInt 130), (''limit'', PInt 100)]) = Inr (?pg 1)"
    and p2: "dataset_page [0..<250::nat] (PDict [(''offset'', PInt 230), (''limit'', PInt 100)]) = Inr (?pg 2)"
    by (simp_all add: dataset_page_def del: upt_rec_numeral)
  have pages: "\<forall>i\<le>2. dataset_page [0..<250::nat]
                 (PDict [(''offset'', PInt (30 + 100 * int i)), (''limit'', PInt 100)]) = Inr (?pg i)"
  proof (intro allI impI)
    fix i :: nat
    assume "i \<le> 2"
    then consider "i = 0" | "i = 1" | "i = 2" by linarith
    then show "dataset_page [0..<250::nat]
                 (PDict [(''offset'', PInt (30 + 100 * int i)), (''limit'', PInt 100)]) = Inr (?pg i)"
    proof cases
      case 1 with p0 show ?thesis by simp
    next
      case 2 with p1 show ?thesis by simp
    next
      case 3 with p2 show ?thesis by simp
    qed
  qed
  have full: "\<forall>i<2. 100 \<le> length (?pg i)" by simp
  have short: "length (?pg 2) < 100" by simp
  have A: "getCollection (logged (dataset_page [0..<250::nat])) (Some ?p)
     = Some ([PDict [(''offset'', PInt 30), (''limit'', PInt 100)],
              PDict [(''offset'', PInt 130), (''limit'', PInt 100)],
              PDict [(''offset'', PInt 230), (''limit'', PInt 100)]],
             Inr ([30..<130] @ [130..<230] @ [230..<250]))"
  proof -
    from getCollection_no_maximum [OF mx off, where k = 2 and f = "dataset_page [0..<250::nat]" and pg = ?pg]
      pages full short
    have "getCollection (logged (dataset_page [0..<250::nat])) (Some ?p)
        = Some (map (\<lambda>i. PDict [(''offset'', PInt (30 + 100 * int i)), (''limit'', PInt 100)]) [0..<Suc 2],
                Inr (concat (map ?pg [0..<Suc 2])))"
      by blast
    then show ?thesis by (simp add: e3 e3n del: upt_rec_numeral)
  qed
  have B: "getCollection (logged (dataset_page [0..<250::nat])) (Some ?p)
     = Some ([PDict [(''offset'', PInt 30), (''limit'', PInt 100)],
              PDict [(''offset'', PInt 130), (''limit'', PInt 100)],
              PDict [(''offset'', PInt 230), (''limit'', PInt 100)]],
             Inr [30..<250])"
    using getCollection_no_maximum [where ds = "[0..<250::nat]", OF mx off, THEN conjunct2]
    by (simp add: e3n del: upt_rec_numeral)
  have C: "getCollection (logged (dataset_page [0..<50::nat])) (Some [])
     = Some ([PDict [(''offset'', PInt 0), (''limit'', PInt 100)]], Inr [0..<50])"
    using getCollection_no_maximum [where ds = "[0..<50::nat]", OF mx0 off0, THEN conjunct2]
    by (simp del: upt_rec_numeral)
  show ?thesis by (intro conjI A B C)
qed

text \<open>
  C3: the claim and the docstrings promise that every \<^verbatim>\<open>get*\<close> operation is the
  accumulator over its \<^verbatim>\<open>list*\<close> operation, called with the page parameters. For bank
  accounts, prepaid cards and paper checks the page dictionary lands in the
  \<^verbatim>\<open>userToken\<close> parameter of the list operation: unless the maximum is below 1, the
  first fetch raises AttributeError while the path is joined, no transport call is made,
  and no resource is ever returned.
\<close>

theorem get_user_scoped_collections_raise:
  assumes "dict_get p ''maximum'' = None \<or> (\<exists>m. dict_get p ''maximum'' = Some m \<and> 1 \<le> m)"
  shows "getBankAccounts self (Some p) = Some ([], Inl AttributeError)
   \<and> getPrepaidCards self (Some p) = Some ([], Inl AttributeError)
   \<and> getPaperChecks self (Some p) = Some ([], Inl AttributeError)"
proof -
  let ?off = "or_zero (dict_get p ''offset'')"
  have t: "truthy (page offset limit)" for offset limit by (simp add: page_def)
  have a: "listBankAccounts self (page ?off chunksize) PNone = ([], Inl AttributeError)"
    by (simp add: listBankAccounts_def t page_as_token_fails lift_def and_then_def)
  have b: "listPrepaidCards self (page ?off chunksize) PNone = ([], Inl AttributeError)"
    by (simp add: listPrepaidCards_def t page_as_token_fails lift_def and_then_def)
  have c: "listPaperChecks self (page ?off chunksize) PNone = ([], Inl AttributeError)"
    by (simp add: listPaperChecks_def t page_as_token_fails lift_def and_then_def)
  note la = fetch_loop_first_page_raises
    [where func = "\<lambda>args. listBankAccounts self args PNone" and offset = ?off, OF a]
  note lb = fetch_loop_first_page_raises
    [where func = "\<lambda>args. listPrepaidCards self args PNone" and offset = ?off, OF b]
  note lc = fetch_loop_first_page_raises
    [where func = "\<lambda>args. listPaperChecks self args PNone" and offset = ?off, OF c]
  from assms have g: "\<not> (case dict_get p ''maximum'' of None \<Rightarrow> False | Some m \<Rightarrow> m < 1)"
    by auto
  show ?thesis
    using g
    by (simp add: getBankAccounts_def getPrepaidCards_def getPaperChecks_def getCollection_def
          la lb lc)
qed

theorem get_user_scoped_collections_raise_witness:
  "getBankAccounts (fixed_api (PDict [])) (Some [(''maximum'', Some 5)]) = Some ([], Inl AttributeError)
   \<and> getPrepaidCards (fixed_api (PDict [])) (Some []) = Some ([], Inl AttributeError)
   \<and> getPaperChecks (fixed_api (PDict [])) (Some [(''offset'', Some 10)]) = Some ([], Inl AttributeError)"
  using get_user_scoped_collections_raise [where p = "[(''maximum'', Some 5)]" and self = "fixed_api (PDict [])"]
        get_user_scoped_collections_raise [where p = "[]" and self = "fixed_api (PDict [])"]
        get_user_scoped_collections_raise [where p = "[(''offset'', Some 10)]" and self = "fixed_api (PDict [])"]
  by (simp add: dict_get_def)

text \<open>
  C4: the claim and the docstrings promise Payment resources. The name \<^verbatim>\<open>Payment\<close> is
  not among the imported names: after a successful transport call \<^verbatim>\<open>createPayment\<close>
  and \<^verbatim>\<open>retrievePayment\<close> raise NameError, and so does \<^verbatim>\<open>listPayments\<close> on a
  response with at least one item.
\<close>

theorem payment_operations_raise_NameError:
  "(truthy data \<and> addProgramToken self data = Inr data'
      \<and> apiClient self (DoPost ''payments'' data' None) = Inr response
    \<longrightarrow> createPayment self data = ([DoPost ''payments'' data' None], Inl (NameError ''Payment'')))
   \<and> (tok \<noteq> [] \<and> apiClient self (DoGet (join_step ''payments'' tok) None) = Inr response
    \<longrightarrow> retrievePayment self (PStr tok)
          = ([DoGet (join_step ''payments'' tok) None], Inl (NameError ''Payment'')))
   \<and> (apiClient self (DoGet ''payments'' (Some params)) = Inr (PDict [(''data'', PList (x # xs))])
    \<longrightarrow> listPayments self params
          = ([DoGet ''payments'' (Some params)], Inl (NameError ''Payment'')))"
  by (simp add: createPayment_def retrievePayment_def listPayments_def doPost_def doGet_def
        lift_def and_then_def construct_def imported_def raise_def wrap_data_def)

theorem payment_operations_raise_NameError_witness:
  "createPayment (fixed_api (PDict [(''token'', PStr ''pmt-1'')])) (PDict [(''amount'', PStr ''10.00'')])
     = ([DoPost ''payments'' (PDict [(''amount'', PStr ''10.00''), (''programToken'', PStr ''prg-1'')]) None],
        Inl (NameError ''Payment''))
   \<and> retrievePayment (fixed_api (PDict [(''token'', PStr ''pmt-1'')])) (PStr ''pmt-1'')
     = ([DoGet ''payments/pmt-1'' None], Inl (NameError ''Payment''))
   \<and> listPayments (fixed_api (PDict [(''data'', PList [PDict [(''token'', PStr ''pmt-1'')]])])) PNone
     = ([DoGet ''payments'' (Some PNone)], Inl (NameError ''Payment''))"
  using payment_operations_raise_NameError [where self = "fixed_api (PDict [(''token'', PStr ''pmt-1'')])"
              and data = "PDict [(''amount'', PStr ''10.00'')]"
              and data' = "PDict [(''amount'', PStr ''10.00''), (''programToken'', PStr ''prg-1'')]"
              and response = "PDict [(''token'', PStr ''pmt-1'')]" and tok = "''pmt-1''"]
        payment_operations_raise_NameError [where self = "fixed_api (PDict [(''data'', PList [PDict [(''token'', PStr ''pmt-1'')]])])"
              and params = PNone and x = "PDict [(''token'', PStr ''pmt-1'')]" and xs = "[]"]
  by (simp add: fixed_api_def addProgramToken_def has_key_def join_step_def)

text \<open>
  C5: for every operation with a required identifier or payload, a call in which such an
  argument is \<^verbatim>\<open>None\<close> or empty raises the invalid-argument error "... is required"
  naming a missing required argument (the first one the method tests), and no transport
  method is called.
\<close>

theorem required_argument_missing:
  assumes "(a, v) \<in> set (required c)" and "\<not> truthy v"
  shows "\<exists>n w. (n, w) \<in> set (required c) \<and> \<not> truthy w
           \<and> first_missing (required c) = Some n
           \<and> invoke self c = ([], Inl (HyperwalletException (n @ '' is required'')))"
proof -
  from first_missing_some [OF assms] obtain n w
    where "first_missing (required c) = Some n" and "(n, w) \<in> set (required c)" and "\<not> truthy w"
    by blast
  with invoke_first_missing [of c n self] show ?thesis by blast
qed

text \<open>\<^verbatim>\<open>retrieveUser(None)\<close>, and \<^verbatim>\<open>updateBankAccount\<close> with an empty payload.\<close>

theorem required_argument_missing_witness:
  "invoke (fixed_api PNone) (RetrieveUser PNone)
     = ([], Inl (HyperwalletException ''userToken is required''))
   \<and> invoke (fixed_api PNone) (UpdateBankAccount (PStr ''usr-1'') (PStr ''trm-1'') (PDict []))
     = ([], Inl (HyperwalletException ''data is required''))"
  using required_argument_missing [where a = "''userToken''" and v = PNone and c = "RetrieveUser PNone"
              and self = "fixed_api PNone"]
        required_argument_missing [where a = "''data''" and v = "PDict []"
              and c = "UpdateBankAccount (PStr ''usr-1'') (PStr ''trm-1'') (PDict [])"
              and self = "fixed_api PNone"]
  by auto

text \<open>
  C6: a payload that has the key \<^verbatim>\<open>programToken\<close> comes back unchanged, whatever the
  value; a payload without it gets the client's program token under that key and is
  otherwise unchanged; and injecting twice is injecting once.
\<close>

theorem addProgramToken_idempotent:
  "(has_key d ''programToken'' \<longrightarrow> addProgramToken self (PDict d) = Inr (PDict d))
   \<and> (\<not> has_key d ''programToken'' \<longrightarrow>
        (\<exists>d'. addProgramToken self (PDict d) = Inr (PDict d')
              \<and> map_of d' = (map_of d)(''programToken'' \<mapsto> programToken self)))
   \<and> (case addProgramToken self data of Inl e \<Rightarrow> Inl e | Inr data' \<Rightarrow> addProgramToken self data')
       = addProgramToken self data"
proof -
  have k: "has_key (AList.update ''programToken'' v d0) ''programToken''" for v and d0 :: "(string \<times> pyval) list"
    by (simp add: has_key_def dom_update)
  have idem: "(case addProgramToken self data of Inl e \<Rightarrow> Inl e | Inr data' \<Rightarrow> addProgramToken self data')
       = addProgramToken self data"
    by (cases data) (simp_all add: addProgramToken_def k)
  show ?thesis
    using idem by (simp add: addProgramToken_def update_conv')
qed

theorem addProgramToken_idempotent_witness:
  "addProgramToken (fixed_api PNone) (PDict [(''profileType'', PStr ''INDIVIDUAL''), (''programToken'', PStr ''prg-2'')])
     = Inr (PDict [(''profileType'', PStr ''INDIVIDUAL''), (''programToken'', PStr ''prg-2'')])
   \<and> addProgramToken (fixed_api PNone) (PDict [(''profileType'', PStr ''INDIVIDUAL'')])
     = Inr (PDict [(''profileType'', PStr ''INDIVIDUAL''), (''programToken'', PStr ''prg-1'')])"
  using addProgramToken_idempotent [where self = "fixed_api PNone"
              and d = "[(''profileType'', PStr ''INDIVIDUAL''), (''programToken'', PStr ''prg-2'')]"]
        addProgramToken_idempotent [where self = "fixed_api PNone" and d = "[(''profileType'', PStr ''INDIVIDUAL'')]"]
  by (simp add: has_key_def addProgramToken_def fixed_api_def)

text \<open>
  C9 (amended): \<^verbatim>\<open>listTransferMethodConfigurations\<close> and
  \<^verbatim>\<open>retrieveTransferMethodConfiguration\<close> raise the invalid-argument error naming the
  first required key that is missing from \<^verbatim>\<open>params\<close>, before any transport call; when
  every required key is present, whatever its value, the transport is called once with
  \<^verbatim>\<open>params\<close>.
\<close>

theorem configuration_operations_key_presence:
  "(\<not> has_key params ''userToken'' \<longrightarrow>
      listTransferMethodConfigurations self params
        = ([], Inl (HyperwalletException ''userToken is required'')))
   \<and> (has_key params ''userToken'' \<longrightarrow>
      listTransferMethodConfigurations self params
        = ([DoGet ''transfer-method-configurations'' (Some (PDict params))],
           apiClient self (DoGet ''transfer-method-configurations'' (Some (PDict params)))))
   \<and> (find (\<lambda>k. \<not> has_key params k) required_keys = Some k \<longrightarrow>
      retrieveTransferMethodConfiguration self params
        = ([], Inl (HyperwalletException (k @ '' is required''))))
   \<and> (find (\<lambda>k. \<not> has_key params k) required_keys = None \<longrightarrow>
      retrieveTransferMethodConfiguration self params
        = ([DoGet ''transfer-method-configurations'' (Some (PDict params))],
           apiClient self (DoGet ''transfer-method-configurations'' (Some (PDict params)))))"
  by (auto simp: listTransferMethodConfigurations_def retrieveTransferMethodConfiguration_def
        required_keys_def raise_def doGet_def split: if_splits)

theorem configuration_operations_key_presence_witness:
  "listTransferMethodConfigurations (fixed_api (PDict [])) []
     = ([], Inl (HyperwalletException ''userToken is required''))
   \<and> retrieveTransferMethodConfiguration (fixed_api (PDict []))
        [(''userToken'', PStr ''usr-1''), (''country'', PStr ''US''), (''type'', PStr ''BANK_ACCOUNT'')]
     = ([], Inl (HyperwalletException ''currency is required''))
   \<and> retrieveTransferMethodConfiguration (fixed_api (PDict []))
        [(''userToken'', PStr ''usr-1''), (''country'', PStr ''US''), (''currency'', PStr ''USD''),
         (''type'', PStr ''BANK_ACCOUNT''), (''profileType'', PStr [])]
     = ([DoGet ''transfer-method-configurations'' (Some (PDict
          [(''userToken'', PStr ''usr-1''), (''country'', PStr ''US''), (''currency'', PStr ''USD''),
           (''type'', PStr ''BANK_ACCOUNT''), (''profileType'', PStr [])]))],
        Inr (PDict []))"
  using configuration_operations_key_presence [where self = "fixed_api (PDict [])" and params = "[]"]
        configuration_operations_key_presence [where self = "fixed_api (PDict [])" and k = "''currency''"
              and params = "[(''userToken'', PStr ''usr-1''), (''country'', PStr ''US''), (''type'', PStr ''BANK_ACCOUNT'')]"]
        configuration_operations_key_presence [where self = "fixed_api (PDict [])"
              and params = "[(''userToken'', PStr ''usr-1''), (''country'', PStr ''US''), (''currency'', PStr ''USD''),
         (''type'', PStr ''BANK_ACCOUNT''), (''profileType'', PStr [])]"]
  by (simp add: has_key_def required_keys_def fixed_api_def)

text \<open>
  C9 as stated also rejects a required key that is present with an empty value. The
  test is key presence: \<^verbatim>\<open>{'userToken': ''}\<close> passes and reaches the transport.
\<close>

theorem configuration_empty_value_counterexample:
  "listTransferMethodConfigurations (fixed_api (PDict [])) [(''userToken'', PStr [])]
     = ([DoGet ''transfer-method-configurations'' (Some (PDict [(''userToken'', PStr [])]))],
        Inr (PDict []))
   \<and> listTransferMethodConfigurations (fixed_api (PDict [])) [(''userToken'', PStr [])]
     \<noteq> ([], Inl (HyperwalletException ''userToken is required''))"
  by (simp add: listTransferMethodConfigurations_def has_key_def doGet_def fixed_api_def)

text \<open>
  C10: every \<^verbatim>\<open>get*\<close> operation called with \<^verbatim>\<open>params = None\<close>, its declared default,
  raises AttributeError from \<^verbatim>\<open>params.get\<close> before any fetch; that is not the library's
  \<^verbatim>\<open>HyperwalletException\<close>.
\<close>

theorem get_operations_params_None:
  "getUsers self None = Some ([], Inl AttributeError)
   \<and> getBankAccounts self None = Some ([], Inl AttributeError)
   \<and> getPrepaidCards self None = Some ([], Inl AttributeError)
   \<and> getPaperChecks self None = Some ([], Inl AttributeError)
   \<and> getPayments self None = Some ([], Inl AttributeError)
   \<and> getWebhooks self None = Some ([], Inl AttributeError)
   \<and> (\<forall>msg. AttributeError \<noteq> HyperwalletException msg)"
  by (simp add: getUsers_def getBankAccounts_def getPrepaidCards_def getPaperChecks_def
        getPayments_def getWebhooks_def getCollection_def raise_def)

theorem get_operations_params_None_witness:
  "getUsers (fixed_api PNone) None = Some ([], Inl AttributeError)
   \<and> getBankAccounts (fixed_api PNone) None = Some ([], Inl AttributeError)"
  using get_operations_params_None [of "fixed_api PNone"] by simp

end
